theory Spec2Isabelle
  imports Main "HOL-Library.AList" "HOL-Library.List_Lexorder"
begin

text \<open>
  A model of the Python bridge that loads TypeScript environments
  (\<^verbatim>\<open>python-bridge/verifiers_ts_loader.py\<close>) and of the host's environment loader
  (\<^verbatim>\<open>verifiers/utils/env_utils.py\<close>): first what they use of the Python library, then
  the normalization of tool calls, the wrapper with its build step and its calls, and
  the host's \<^verbatim>\<open>load_environment\<close>; the properties follow the definitions.
\<close>

section \<open>Python text and decoded JSON values\<close>

text \<open>
  A Python \<^verbatim>\<open>str\<close> is a sequence of Unicode code points, so text is a list of
  natural numbers; \<open>u\<close> reads an ASCII literal as such a list.  The interpreter's
  resource limits (recursion depth, the digit limit of integer conversion) are outside
  the model.
\<close>

type_synonym ustring = "nat list"

definition u :: "string \<Rightarrow> ustring" where
  "u s = map of_char s"

text \<open>
  Binary floating point is not part of the embedding: \<open>pyfloat\<close> is an unspecified
  type, and the three operations the bridge needs on it, together with the Unicode
  database's \<^verbatim>\<open>str.isprintable\<close>, are fields of a record that every library
  function below takes as its first argument.  No theorem assumes anything about them.
\<close>

typedecl pyfloat

record pylib =
  float_of_literal :: "ustring \<Rightarrow> pyfloat"
  float_repr :: "pyfloat \<Rightarrow> ustring"
  float_truthy :: "pyfloat \<Rightarrow> bool"
  isprintable :: "nat \<Rightarrow> bool"

text \<open>
  What \<^verbatim>\<open>json.loads\<close> returns: \<^verbatim>\<open>None\<close>, \<^verbatim>\<open>bool\<close>, \<^verbatim>\<open>int\<close>,
  \<^verbatim>\<open>float\<close>, \<^verbatim>\<open>str\<close>, \<^verbatim>\<open>list\<close> and \<^verbatim>\<open>dict\<close> with string keys.  A
  dict keeps its insertion order, so it is an association list; \<open>map_of\<close> is the
  lookup and \<open>AList.update\<close> the assignment \<^verbatim>\<open>d[k] = v\<close> (in place for a key that
  is present, appended otherwise).
\<close>

datatype json =
    JNull
  | JBool bool
  | JInt int
  | JFloat pyfloat
  | JStr ustring
  | JList "json list"
  | JDict "(ustring \<times> json) list"

text \<open>\<^verbatim>\<open>bool(v)\<close>, as used by \<^verbatim>\<open>x or y\<close> and \<^verbatim>\<open>if x\<close>.\<close>

fun truthy :: "pylib \<Rightarrow> json \<Rightarrow> bool" where
  "truthy L JNull = False"
| "truthy L (JBool b) = b"
| "truthy L (JInt i) = (i \<noteq> 0)"
| "truthy L (JFloat f) = float_truthy L f"
| "truthy L (JStr s) = (s \<noteq> [])"
| "truthy L (JList xs) = (xs \<noteq> [])"
| "truthy L (JDict d) = (d \<noteq> [])"

text \<open>\<^verbatim>\<open>sep.join(parts)\<close>.\<close>

fun join :: "ustring \<Rightarrow> ustring list \<Rightarrow> ustring" where
  "join sep [] = []"
| "join sep [x] = x"
| "join sep (x # y # ys) = x @ sep @ join sep (y # ys)"

text \<open>Decimal and hexadecimal digits.\<close>

function dec :: "nat \<Rightarrow> ustring" where
  "dec n = (if n < 10 then [48 + n] else dec (n div 10) @ [48 + n mod 10])"
  by pat_completeness auto
termination
  by (relation "measure id") auto

definition int_str :: "int \<Rightarrow> ustring" where
  "int_str i = (if i < 0 then 45 # dec (nat (- i)) else dec (nat i))"

definition hex_digit :: "nat \<Rightarrow> nat" where
  "hex_digit n = (if n < 10 then 48 + n else 87 + n)"

definition hex2 :: "nat \<Rightarrow> ustring" where
  "hex2 c = [hex_digit (c div 16 mod 16), hex_digit (c mod 16)]"

definition hex4 :: "nat \<Rightarrow> ustring" where
  "hex4 c = hex2 (c div 256) @ hex2 (c mod 256)"

definition hex8 :: "nat \<Rightarrow> ustring" where
  "hex8 c = hex4 (c div 65536) @ hex4 (c mod 65536)"

subsection \<open>\<^verbatim>\<open>repr\<close> and \<^verbatim>\<open>str\<close>\<close>

text \<open>
  \<^verbatim>\<open>repr\<close> of a string: single quotes unless the text has a single quote and no
  double quote; the quote and the backslash are escaped, tab, newline and carriage
  return are written \<^verbatim>\<open>\t \n \r\<close>, other unprintable code points in hexadecimal.
\<close>

definition repr_char :: "pylib \<Rightarrow> nat \<Rightarrow> nat \<Rightarrow> ustring" where
  "repr_char L q c =
     (if c = q \<or> c = 92 then [92, c]
      else if c = 9 then [92, 116]
      else if c = 10 then [92, 110]
      else if c = 13 then [92, 114]
      else if c < 32 \<or> c = 127 then [92, 120] @ hex2 c
      else if c < 127 then [c]
      else if isprintable L c then [c]
      else if c \<le> 255 then [92, 120] @ hex2 c
      else if c \<le> 65535 then [92, 117] @ hex4 c
      else [92, 85] @ hex8 c)"

definition repr_str :: "pylib \<Rightarrow> ustring \<Rightarrow> ustring" where
  "repr_str L s =
     (let q = (if 39 \<in> set s \<and> 34 \<notin> set s then 34 else 39)
      in q # concat (map (repr_char L q) s) @ [q])"

primrec py_repr :: "pylib \<Rightarrow> json \<Rightarrow> ustring" where
  "py_repr L JNull = u ''None''"
| "py_repr L (JBool b) = (if b then u ''True'' else u ''False'')"
| "py_repr L (JInt i) = int_str i"
| "py_repr L (JFloat f) = float_repr L f"
| "py_repr L (JStr s) = repr_str L s"
| "py_repr L (JList xs) = u ''['' @ join (u '', '') (map (py_repr L) xs) @ u '']''"
| "py_repr L (JDict d) =
     u ''{'' @ join (u '', '')
        (map (\<lambda>kr. repr_str L (fst kr) @ u '': '' @ snd kr) (map (map_prod id (py_repr L)) d))
       @ u ''}''"

text \<open>\<^verbatim>\<open>str(v)\<close>: a string is itself, every other value prints as its \<^verbatim>\<open>repr\<close>.\<close>

definition py_str :: "pylib \<Rightarrow> json \<Rightarrow> ustring" where
  "py_str L v = (case v of JStr s \<Rightarrow> s | _ \<Rightarrow> py_repr L v)"

subsection \<open>\<^verbatim>\<open>json.dumps\<close>\<close>

text \<open>
  The default encoder: separators \<^verbatim>\<open>", "\<close> and \<^verbatim>\<open>": "\<close>, \<^verbatim>\<open>ensure_ascii\<close>
  on (everything outside the printable ASCII range is written \<^verbatim>\<open>\uXXXX\<close>, as a
  surrogate pair above the basic plane), and \<^verbatim>\<open>NaN\<close>, \<^verbatim>\<open>Infinity\<close> allowed.
\<close>

definition dumps_char :: "nat \<Rightarrow> ustring" where
  "dumps_char c =
     (if c = 34 then [92, 34]
      else if c = 92 then [92, 92]
      else if c = 10 then [92, 110]
      else if c = 13 then [92, 114]
      else if c = 9 then [92, 116]
      else if c = 12 then [92, 102]
      else if c = 8 then [92, 98]
      else if 32 \<le> c \<and> c \<le> 126 then [c]
      else if c < 65536 then [92, 117] @ hex4 c
      else [92, 117] @ hex4 (55296 + (c - 65536) div 1024 mod 1024)
         @ [92, 117] @ hex4 (56320 + (c - 65536) mod 1024))"

definition dumps_str :: "ustring \<Rightarrow> ustring" where
  "dumps_str s = 34 # concat (map dumps_char s) @ [34]"

definition dumps_float :: "pylib \<Rightarrow> pyfloat \<Rightarrow> ustring" where
  "dumps_float L f =
     (let r = float_repr L f
      in if r = u ''nan'' then u ''NaN''
         else if r = u ''inf'' then u ''Infinity''
         else if r = u ''-inf'' then u ''-Infinity''
         else r)"

primrec json_dumps :: "pylib \<Rightarrow> json \<Rightarrow> ustring" where
  "json_dumps L JNull = u ''null''"
| "json_dumps L (JBool b) = (if b then u ''true'' else u ''false'')"
| "json_dumps L (JInt i) = int_str i"
| "json_dumps L (JFloat f) = dumps_float L f"
| "json_dumps L (JStr s) = dumps_str s"
| "json_dumps L (JList xs) = u ''['' @ join (u '', '') (map (json_dumps L) xs) @ u '']''"
| "json_dumps L (JDict d) =
     u ''{'' @ join (u '', '')
        (map (\<lambda>kr. dumps_str (fst kr) @ u '': '' @ snd kr) (map (map_prod id (json_dumps L)) d))
       @ u ''}''"

subsection \<open>\<^verbatim>\<open>json.loads\<close>\<close>

text \<open>
  The decoder of the standard library (its C scanner): the four JSON whitespace
  characters, strict strings (no raw control character; the escapes
  \<^verbatim>\<open>\" \\ \/ \b \f \n \r \t \uXXXX\<close>, a high and a low surrogate escape joined into
  one code point), numbers (a float as soon as there is a fraction or an exponent), the
  three literals, and \<^verbatim>\<open>NaN\<close>, \<^verbatim>\<open>Infinity\<close>, \<^verbatim>\<open>-Infinity\<close>.  A key that occurs
  twice in an object keeps its first position and its last value.
  \<^verbatim>\<open>JSONDecodeError\<close> is the result \<open>None\<close>.
\<close>

definition is_ws :: "nat \<Rightarrow> bool" where
  "is_ws c = (c = 32 \<or> c = 9 \<or> c = 10 \<or> c = 13)"

definition skip_ws :: "ustring \<Rightarrow> ustring" where
  "skip_ws s = dropWhile is_ws s"

definition is_digit :: "nat \<Rightarrow> bool" where
  "is_digit c = (48 \<le> c \<and> c \<le> 57)"

definition hex_value :: "nat \<Rightarrow> nat option" where
  "hex_value c =
     (if 48 \<le> c \<and> c \<le> 57 then Some (c - 48)
      else if 97 \<le> c \<and> c \<le> 102 then Some (c - 87)
      else if 65 \<le> c \<and> c \<le> 70 then Some (c - 55)
      else None)"

definition hex4_value :: "ustring \<Rightarrow> nat option" where
  "hex4_value s =
     (case map hex_value (take 4 s) of
        [Some a, Some b, Some c, Some d] \<Rightarrow> Some (((a * 16 + b) * 16 + c) * 16 + d)
      | _ \<Rightarrow> None)"

definition unescape :: "nat \<Rightarrow> nat option" where
  "unescape e =
     (if e = 34 \<or> e = 92 \<or> e = 47 then Some e
      else if e = 98 then Some 8
      else if e = 102 then Some 12
      else if e = 110 then Some 10
      else if e = 114 then Some 13
      else if e = 116 then Some 9
      else None)"

definition cons_char ::
  "nat \<Rightarrow> (ustring \<times> ustring) option \<Rightarrow> (ustring \<times> ustring) option" where
  "cons_char c r = map_option (\<lambda>sr. (c # fst sr, snd sr)) r"

text \<open>The low surrogate escape that follows the high surrogate \<open>n\<close>, if there is one.\<close>

definition low_surrogate :: "nat \<Rightarrow> ustring \<Rightarrow> nat option" where
  "low_surrogate n s =
     (if 55296 \<le> n \<and> n \<le> 56319 \<and> take 2 s = [92, 117] then
        (case hex4_value (drop 2 s) of
           Some n2 \<Rightarrow> if 56320 \<le> n2 \<and> n2 \<le> 57343 then Some n2 else None
         | None \<Rightarrow> None)
      else None)"

text \<open>The text after an opening quote: the decoded string and what follows its closing quote.\<close>

function scanstring :: "ustring \<Rightarrow> (ustring \<times> ustring) option" where
  "scanstring [] = None"
| "scanstring (c # cs) =
     (if c = 34 then Some ([], cs)
      else if c = 92 then
        (case cs of
           [] \<Rightarrow> None
         | e # r \<Rightarrow>
             if e = 117 then
               (case hex4_value r of
                  None \<Rightarrow> None
                | Some n \<Rightarrow>
                    (case low_surrogate n (drop 4 r) of
                       Some n2 \<Rightarrow>
                         cons_char (65536 + (n - 55296) * 1024 + (n2 - 56320))
                           (scanstring (drop 10 r))
                     | None \<Rightarrow> cons_char n (scanstring (drop 4 r))))
             else
               (case unescape e of
                  None \<Rightarrow> None
                | Some ch \<Rightarrow> cons_char ch (scanstring r)))
      else if c < 32 then None
      else cons_char c (scanstring cs))"
  by pat_completeness auto
termination
  by (relation "measure length") auto

declare scanstring.simps(2) [simp del]

definition digits_value :: "ustring \<Rightarrow> nat" where
  "digits_value ds = foldl (\<lambda>a d. a * 10 + (d - 48)) 0 ds"

text \<open>
  A number at the start of the text: an optional minus, \<^verbatim>\<open>0\<close> or a digit string
  without leading zero, then a fraction if a dot is followed by a digit, then an
  exponent if \<^verbatim>\<open>e\<close> or \<^verbatim>\<open>E\<close>, with an optional sign, is followed by a digit.
\<close>

definition match_number :: "pylib \<Rightarrow> ustring \<Rightarrow> (json \<times> ustring) option" where
  "match_number L s =
     (let sign = (case s of c # cs \<Rightarrow> if c = 45 then [c] else [] | [] \<Rightarrow> []);
          s1 = drop (length sign) s;
          int_part = (case s1 of
                        d # ds \<Rightarrow> if d = 48 then [d]
                                  else if 49 \<le> d \<and> d \<le> 57 then d # takeWhile is_digit ds
                                  else []
                      | [] \<Rightarrow> [])
      in if int_part = [] then None
         else
           let s2 = drop (length int_part) s1;
               frac = (case s2 of
                         p # d # ds \<Rightarrow> if p = 46 \<and> is_digit d then p # d # takeWhile is_digit ds
                                       else []
                       | _ \<Rightarrow> []);
               s3 = drop (length frac) s2;
               expo = (case s3 of
                         e # t \<Rightarrow>
                           if e = 101 \<or> e = 69 then
                             (let sg = (case t of
                                          g # t' \<Rightarrow> if g = 45 \<or> g = 43 then [g] else []
                                        | [] \<Rightarrow> []);
                                  ds = takeWhile is_digit (drop (length sg) t)
                              in if ds = [] then [] else e # sg @ ds)
                           else []
                       | [] \<Rightarrow> []);
               s4 = drop (length expo) s3
           in if frac = [] \<and> expo = []
              then Some (JInt (if sign = [] then int (digits_value int_part)
                               else - int (digits_value int_part)), s4)
              else Some (JFloat (float_of_literal L (sign @ int_part @ frac @ expo)), s4))"

definition starts_with :: "ustring \<Rightarrow> ustring \<Rightarrow> bool" where
  "starts_with s p = (take (length p) s = p)"

text \<open>
  The three mutually recursive scanners take a bound on the number of calls still
  allowed; \<open>json_loads\<close> starts them with twice the length of the text plus one, which
  they never use up (lemma \<open>json_loads_fuel\<close> below).
\<close>

datatype parsed = Ok json ustring | Malformed | OutOfFuel

definition of_option :: "(json \<times> ustring) option \<Rightarrow> parsed" where
  "of_option r = (case r of Some vr \<Rightarrow> Ok (fst vr) (snd vr) | None \<Rightarrow> Malformed)"

fun scan_once :: "pylib \<Rightarrow> nat \<Rightarrow> ustring \<Rightarrow> parsed"
  and parse_array :: "pylib \<Rightarrow> nat \<Rightarrow> json list \<Rightarrow> ustring \<Rightarrow> parsed"
  and parse_object :: "pylib \<Rightarrow> nat \<Rightarrow> (ustring \<times> json) list \<Rightarrow> ustring \<Rightarrow> parsed"
where
  "scan_once L n s =
     (if n = 0 then OutOfFuel
      else (case s of
        [] \<Rightarrow> Malformed
      | c # cs \<Rightarrow>
          if c = 34 then of_option (map_option (\<lambda>sr. (JStr (fst sr), snd sr)) (scanstring cs))
          else if c = 123 then
            (case skip_ws cs of
               [] \<Rightarrow> Malformed
             | d # r \<Rightarrow> if d = 125 then Ok (JDict []) r else parse_object L (n - 1) [] (d # r))
          else if c = 91 then
            (case skip_ws cs of
               [] \<Rightarrow> Malformed
             | d # r \<Rightarrow> if d = 93 then Ok (JList []) r else parse_array L (n - 1) [] (d # r))
          else if starts_with s (u ''null'') then Ok JNull (drop 4 s)
          else if starts_with s (u ''true'') then Ok (JBool True) (drop 4 s)
          else if starts_with s (u ''false'') then Ok (JBool False) (drop 5 s)
          else if starts_with s (u ''NaN'')
            then Ok (JFloat (float_of_literal L (u ''NaN''))) (drop 3 s)
          else if starts_with s (u ''Infinity'')
            then Ok (JFloat (float_of_literal L (u ''Infinity''))) (drop 8 s)
          else if starts_with s (u ''-Infinity'')
            then Ok (JFloat (float_of_literal L (u ''-Infinity''))) (drop 9 s)
          else of_option (match_number L s)))"
| "parse_array L n acc s =
     (if n = 0 then OutOfFuel
      else (case scan_once L (n - 1) s of
        Ok v r \<Rightarrow>
          (case skip_ws r of
             [] \<Rightarrow> Malformed
           | d # r' \<Rightarrow>
               if d = 93 then Ok (JList (acc @ [v])) r'
               else if d = 44 then parse_array L (n - 1) (acc @ [v]) (skip_ws r')
               else Malformed)
      | Malformed \<Rightarrow> Malformed
      | OutOfFuel \<Rightarrow> OutOfFuel))"
| "parse_object L n acc s =
     (if n = 0 then OutOfFuel
      else (case s of
        [] \<Rightarrow> Malformed
      | q # cs \<Rightarrow>
          (if q \<noteq> 34 then Malformed
           else (case scanstring cs of
             None \<Rightarrow> Malformed
           | Some kr \<Rightarrow>
              (case skip_ws (snd kr) of
                 [] \<Rightarrow> Malformed
               | c # r \<Rightarrow>
                   (if c \<noteq> 58 then Malformed
                    else (case scan_once L (n - 1) (skip_ws r) of
                      Ok v r' \<Rightarrow>
                       (case skip_ws r' of
                          [] \<Rightarrow> Malformed
                        | d # r'' \<Rightarrow>
                            if d = 125 then Ok (JDict (AList.update (fst kr) v acc)) r''
                            else if d = 44
                              then parse_object L (n - 1) (AList.update (fst kr) v acc)
                                     (skip_ws r'')
                            else Malformed)
                    | Malformed \<Rightarrow> Malformed
                    | OutOfFuel \<Rightarrow> OutOfFuel)))))))"

declare scan_once.simps [simp del] parse_array.simps [simp del] parse_object.simps [simp del]

definition json_loads :: "pylib \<Rightarrow> ustring \<Rightarrow> json option" where
  "json_loads L s =
     (case scan_once L (2 * length s + 1) (skip_ws s) of
        Ok v r \<Rightarrow> if skip_ws r = [] then Some v else None
      | _ \<Rightarrow> None)"

subsection \<open>String methods\<close>

text \<open>
  \<^verbatim>\<open>str.isspace\<close> for one code point, \<^verbatim>\<open>s.strip()\<close>, \<^verbatim>\<open>s.split(c)\<close> for a
  one-character separator and \<^verbatim>\<open>s.find(c)\<close> (\<open>None\<close> for \<^verbatim>\<open>-1\<close>).
\<close>

definition isspace :: "nat \<Rightarrow> bool" where
  "isspace c =
     ((9 \<le> c \<and> c \<le> 13) \<or> (28 \<le> c \<and> c \<le> 32) \<or> c = 133 \<or> c = 160 \<or> c = 5760
      \<or> (8192 \<le> c \<and> c \<le> 8202) \<or> c = 8232 \<or> c = 8233 \<or> c = 8239 \<or> c = 8287
      \<or> c = 12288)"

definition strip :: "ustring \<Rightarrow> ustring" where
  "strip s = rev (dropWhile isspace (rev (dropWhile isspace s)))"

primrec split_on :: "nat \<Rightarrow> ustring \<Rightarrow> ustring list" where
  "split_on c [] = [[]]"
| "split_on c (x # xs) =
     (if x = c then [] # split_on c xs
      else (case split_on c xs of
              p # ps \<Rightarrow> (x # p) # ps
            | [] \<Rightarrow> [[x]]))"

definition find_char :: "nat \<Rightarrow> ustring \<Rightarrow> nat option" where
  "find_char c s = (if c \<in> set s then Some (length (takeWhile (\<lambda>x. x \<noteq> c) s)) else None)"

subsection \<open>Equality of dicts\<close>

text \<open>
  Python's \<^verbatim>\<open>==\<close> on dicts ignores the order of the keys.  \<open>canon\<close> sorts every dict
  of a value by key; two values with the same canonical form are equal in Python.
\<close>

primrec canon :: "json \<Rightarrow> json" where
  "canon JNull = JNull"
| "canon (JBool b) = JBool b"
| "canon (JInt i) = JInt i"
| "canon (JFloat f) = JFloat f"
| "canon (JStr s) = JStr s"
| "canon (JList xs) = JList (map canon xs)"
| "canon (JDict d) = JDict (sort_key fst (map (map_prod id canon) d))"

definition same_value :: "json \<Rightarrow> json \<Rightarrow> bool" where
  "same_value a b = (canon a = canon b)"

section \<open>Normalizing tool calls\<close>

text \<open>
  The body of the loop over \<^verbatim>\<open>new_msg["tool_calls"]\<close> in
  \<^verbatim>\<open>normalize_tool_calls_in_messages\<close>.  The function is local to
  \<^verbatim>\<open>_call_ts_method\<close> and only ever sees what \<^verbatim>\<open>json.loads\<close> returned; none of
  those values has a \<^verbatim>\<open>model_dump\<close> attribute, so of the three ways to obtain
  \<^verbatim>\<open>tc_dict\<close> the first cannot be taken and the model has the other two.  The code
  copies the tool call and the message before it changes them, and changes the nested
  \<^verbatim>\<open>function\<close> dict of its input in place; decoded data shares no object, so what
  it returns is the value computed here.
\<close>

definition normalize_tool_call :: "pylib \<Rightarrow> json \<Rightarrow> json" where
  "normalize_tool_call L tc =
     (let tc_dict = (case tc of
                       JDict d \<Rightarrow> d
                     | _ \<Rightarrow> [(u ''function'', JDict [(u ''name'', JStr (py_str L tc))])]);
          tc_dict = (case map_of tc_dict (u ''type'') of
                       Some (JStr t) \<Rightarrow> tc_dict
                     | _ \<Rightarrow> AList.update (u ''type'') (JStr (u ''function'')) tc_dict);
          func = (case map_of tc_dict (u ''function'') of
                    Some v \<Rightarrow> if truthy L v then v else JDict []
                  | None \<Rightarrow> JDict []);
          func = (case func of
                    JDict f \<Rightarrow> f
                  | _ \<Rightarrow> [(u ''name'', JStr (py_str L func))]);
          func = (case map_of func (u ''name'') of
                    Some (JStr n) \<Rightarrow> func
                  | _ \<Rightarrow> AList.update (u ''name'') (JStr (u ''unknown_tool'')) func);
          func = (case map_of func (u ''arguments'') of
                    None \<Rightarrow> AList.update (u ''arguments'') (JStr (u ''{}'')) func
                  | Some (JStr a) \<Rightarrow> func
                  | Some a \<Rightarrow> AList.update (u ''arguments'') (JStr (json_dumps L a)) func)
      in JDict (AList.update (u ''function'') (JDict func) tc_dict))"

text \<open>The body of the loop over \<^verbatim>\<open>messages\<close>.\<close>

definition normalize_message :: "pylib \<Rightarrow> json \<Rightarrow> json" where
  "normalize_message L msg =
     (case msg of
        JDict new_msg \<Rightarrow>
          (case map_of new_msg (u ''tool_calls'') of
             Some (JList tcs) \<Rightarrow>
               JDict (AList.update (u ''tool_calls'')
                        (JList (map (normalize_tool_call L) tcs)) new_msg)
           | _ \<Rightarrow> JDict new_msg)
      | _ \<Rightarrow> msg)"

definition normalize_tool_calls_in_messages :: "pylib \<Rightarrow> json \<Rightarrow> json" where
  "normalize_tool_calls_in_messages L messages =
     (case messages of
        JList ms \<Rightarrow> JList (map (normalize_message L) ms)
      | _ \<Rightarrow> messages)"

section \<open>Paths, the file system and subprocesses\<close>

text \<open>
  A \<^verbatim>\<open>pathlib\<close> path on a POSIX system: the number of leading slashes of its root
  (none, one, or the two that POSIX keeps apart) and its components.  \<open>mk_path\<close> is
  \<^verbatim>\<open>Path(s)\<close>, \<open>path_div\<close> the operator \<^verbatim>\<open>/\<close> and \<open>path_str\<close> is \<^verbatim>\<open>str(p)\<close>.
\<close>

datatype path = Path nat "ustring list"

definition mk_path :: "ustring \<Rightarrow> path" where
  "mk_path s =
     (let n = length (takeWhile (\<lambda>c. c = 47) s)
      in Path (if n = 0 then 0 else if n = 2 then 2 else 1)
           (filter (\<lambda>p. p \<noteq> [] \<and> p \<noteq> u ''.'') (split_on 47 s)))"

definition path_div :: "path \<Rightarrow> ustring \<Rightarrow> path" where
  "path_div p s =
     (case mk_path s of
        Path r cs \<Rightarrow>
          if r \<noteq> 0 then Path r cs
          else (case p of Path r0 cs0 \<Rightarrow> Path r0 (cs0 @ cs)))"

definition path_str :: "path \<Rightarrow> ustring" where
  "path_str p =
     (case p of
        Path r cs \<Rightarrow> if r = 0 \<and> cs = [] then u ''.'' else replicate r 47 @ join [47] cs)"

text \<open>
  The world outside the interpreter: the paths that exist, and the argument vector of
  every \<^verbatim>\<open>subprocess.run\<close> so far, oldest first.
\<close>

record world =
  files :: "path set"
  spawned :: "ustring list list"

text \<open>
  What \<^verbatim>\<open>subprocess.run(..., capture_output=True, text=True)\<close> observes: the process
  ran and left a return code and the two captured texts, or it could not be started and
  \<^verbatim>\<open>run\<close> raised \<^verbatim>\<open>OSError\<close>.
\<close>

datatype proc = Completed int ustring ustring | NotStarted

text \<open>
  The driver script is the fixed text of lines 237 to 284 with five interpolated values,
  which stand for it here.
\<close>

record request =
  import_path_json :: ustring
  env_args_json :: ustring
  method_name :: ustring
  args_json :: ustring
  kwargs_json :: ustring

text \<open>
  Everything the bridge asks of its surroundings is a field of \<open>sys\<close>: the library
  operations above, \<^verbatim>\<open>shutil.which("pnpm")\<close>, the build and the driver process (each
  returns what \<^verbatim>\<open>run\<close> observes and the paths that exist afterwards, and may depend on
  the whole world, the history of earlier runs included), the name
  \<^verbatim>\<open>NamedTemporaryFile\<close> picks, \<^verbatim>\<open>Path.resolve\<close>, the \<^verbatim>\<open>repr\<close> of a signal
  number, and the types of \<^verbatim>\<open>verifiers.types\<close>, which are not part of this
  repository: whether they could be imported and whether their constructors accept a
  mapping.  The theorems hold for every \<open>sys\<close>.
\<close>

record sys =
  lib :: pylib
  which_pnpm :: "world \<Rightarrow> bool"
  run_build :: "ustring list \<Rightarrow> path \<Rightarrow> world \<Rightarrow> proc \<times> path set"
  run_node :: "request \<Rightarrow> path \<Rightarrow> path \<Rightarrow> world \<Rightarrow> proc \<times> path set"
  mkstemp :: "world \<Rightarrow> path"
  resolve :: "world \<Rightarrow> path \<Rightarrow> path"
  signal_repr :: "nat \<Rightarrow> ustring option"
  types_installed :: bool
  metadata_valid :: "(ustring \<times> json) list \<Rightarrow> bool"
  outputs_valid :: "(ustring \<times> json) list \<Rightarrow> bool"

section \<open>Errors\<close>

text \<open>
  One constructor for each \<^verbatim>\<open>raise\<close> of the loader and the wrapper, named after the
  condition of the specification, with the message of the exception:
  \<open>ModuleNotFound\<close> and \<open>EntryPointMissing\<close> are the \<^verbatim>\<open>ValueError\<close>s of lines 122
  and 133,
  \<open>BuildFailed\<close> is the \<^verbatim>\<open>RuntimeError\<close> of line 196,
  \<open>BuildIncomplete\<close> the \<^verbatim>\<open>FileNotFoundError\<close> of line 187,
  \<open>EntryMissing\<close> the \<^verbatim>\<open>FileNotFoundError\<close> of line 210,
  \<open>NoPayload\<close>, \<open>PayloadNotFound\<close> and \<open>DecodeError\<close> the \<^verbatim>\<open>RuntimeError\<close>s of
  lines 312, 328 and 412, and \<open>RemoteMethodFailed\<close> the \<^verbatim>\<open>RuntimeError\<close> of lines
  425 to 435.  \<open>Uncaught c\<close> is an exception of class \<open>c\<close> that the wrapper does not
  raise itself and lets through.
\<close>

datatype error =
    ModuleNotFound ustring
  | EntryPointMissing ustring
  | BuildFailed ustring
  | BuildIncomplete ustring
  | EntryMissing ustring
  | NoPayload ustring
  | PayloadNotFound ustring
  | DecodeError ustring
  | RemoteMethodFailed ustring
  | Uncaught ustring

section \<open>The wrapper\<close>

record wrapper =
  env_id :: ustring
  env_path :: path
  env_args :: "(ustring \<times> json) list"
  compiled_path :: "path option"

text \<open>\<^verbatim>\<open>TSEnvironmentWrapper.__init__\<close>.\<close>

definition new_wrapper :: "ustring \<Rightarrow> path \<Rightarrow> (ustring \<times> json) list \<Rightarrow> wrapper" where
  "new_wrapper i p a = \<lparr>env_id = i, env_path = p, env_args = a, compiled_path = None\<rparr>"

subsection \<open>\<^verbatim>\<open>_ensure_compiled\<close>\<close>

text \<open>\<^verbatim>\<open>str(e)\<close> of the \<^verbatim>\<open>CalledProcessError\<close> for a command and its return code.\<close>

definition called_process_error_str :: "sys \<Rightarrow> ustring list \<Rightarrow> int \<Rightarrow> ustring" where
  "called_process_error_str S cmd rc =
     (let c = u ''Command '' @ [39] @ py_repr (lib S) (JList (map JStr cmd)) @ [39]
      in if rc < 0 then
           (case signal_repr S (nat (- rc)) of
              Some r \<Rightarrow> c @ u '' died with '' @ r @ u ''.''
            | None \<Rightarrow> c @ u '' died with unknown signal '' @ dec (nat (- rc)) @ u ''.'')
         else c @ u '' returned non-zero exit status '' @ int_str rc @ u ''.'')"

text \<open>
  The package manager: \<^verbatim>\<open>pnpm\<close> when the environment has a \<^verbatim>\<open>pnpm-lock.yaml\<close> or
  \<^verbatim>\<open>pnpm\<close> is on the search path, \<^verbatim>\<open>npm\<close> otherwise.
\<close>

definition build_cmd :: "sys \<Rightarrow> wrapper \<Rightarrow> world \<Rightarrow> ustring list" where
  "build_cmd S self w =
     (let pnpm_lock = path_div (env_path self) (u ''pnpm-lock.yaml'');
          has_pnpm = which_pnpm S w
      in if pnpm_lock \<in> files w \<or> has_pnpm
         then [u ''pnpm'', u ''run'', u ''build'']
         else [u ''npm'', u ''run'', u ''build''])"

text \<open>
  The result is the value returned or the exception raised, with the wrapper and the
  world as the call leaves them.
\<close>

definition ensure_compiled :: "sys \<Rightarrow> wrapper \<Rightarrow> world \<Rightarrow> (error + path) \<times> wrapper \<times> world" where
  "ensure_compiled S self w =
     (case compiled_path self of
        Some p \<Rightarrow> (Inr p, self, w)
      | None \<Rightarrow>
          let dist_path = path_div (env_path self) (u ''dist'') in
          if dist_path \<in> files w
          then (Inr dist_path, self\<lparr>compiled_path := Some dist_path\<rparr>, w)
          else
            let result = run_build S (build_cmd S self w) (env_path self) w;
                w' = w\<lparr>files := snd result, spawned := spawned w @ [build_cmd S self w]\<rparr>
            in (case fst result of
                 NotStarted \<Rightarrow> (Inl (Uncaught (u ''OSError'')), self, w')
               | Completed rc out err \<Rightarrow>
                   if rc \<noteq> 0 then
                     (let error_msg = (if err \<noteq> [] then err
                                       else if out \<noteq> [] then out
                                       else called_process_error_str S (build_cmd S self w) rc)
                      in (Inl (BuildFailed (u ''Failed to compile TypeScript environment ''
                                @ env_id self @ u '': '' @ error_msg)), self, w'))
                   else
                     (let index_js_path = path_div dist_path (u ''index.js'') in
                      if index_js_path \<notin> files w'
                      then (Inl (BuildIncomplete (u ''Build completed but index.js not found at ''
                                   @ path_str index_js_path @ u ''. Build output: '' @ out)),
                            self, w')
                      else (Inr dist_path, self\<lparr>compiled_path := Some dist_path\<rparr>, w'))))"

subsection \<open>\<^verbatim>\<open>_call_ts_method\<close>: a driver that exited with code zero\<close>

text \<open>What a call returns: the decoded payload, or the \<^verbatim>\<open>GenerateOutputs\<close> built from it.\<close>

datatype pyval = Plain json | GenerateOutputs json

text \<open>
  \<^verbatim>\<open>data[key] = [normalize_tool_calls_in_messages(p) for p in data[key]]\<close>, done when
  the key is present and holds a list.
\<close>

definition normalize_field ::
  "pylib \<Rightarrow> ustring \<Rightarrow> (ustring \<times> json) list \<Rightarrow> (ustring \<times> json) list" where
  "normalize_field L key data =
     (case map_of data key of
        Some (JList ps) \<Rightarrow>
          AList.update key (JList (map (normalize_tool_calls_in_messages L) ps)) data
      | _ \<Rightarrow> data)"

text \<open>
  Lines 338 to 403, for the method \<^verbatim>\<open>evaluate\<close>.  \<^verbatim>\<open>data.get\<close> on a decoded array
  raises \<^verbatim>\<open>AttributeError\<close>.  The object that \<^verbatim>\<open>GenerateMetadata\<close> builds is
  represented by the mapping it was built from.
\<close>

definition evaluate_outputs :: "sys \<Rightarrow> json \<Rightarrow> error + pyval" where
  "evaluate_outputs S data =
     (case data of
        JDict d \<Rightarrow>
          if (case map_of d (u ''metadata'') of
                Some (JDict m) \<Rightarrow> \<not> metadata_valid S m
              | _ \<Rightarrow> False)
          then Inl (Uncaught (u ''ValidationError''))
          else
            (let d1 = normalize_field (lib S) (u ''prompt'') d;
                 d2 = normalize_field (lib S) (u ''completion'') d1
             in if outputs_valid S d2 then Inr (GenerateOutputs (JDict d2))
                else Inl (Uncaught (u ''ValidationError'')))
      | _ \<Rightarrow> Inl (Uncaught (u ''AttributeError'')))"

text \<open>
  Lines 306 to 412: the body of the \<^verbatim>\<open>try\<close> after \<^verbatim>\<open>subprocess.run\<close> has returned,
  that is after the driver exited with code zero, from its captured \<^verbatim>\<open>stdout\<close> and
  \<^verbatim>\<open>stderr\<close>.
\<close>

definition stderr_excerpt :: "ustring \<Rightarrow> ustring" where
  "stderr_excerpt err = (if err \<noteq> [] then [10] @ u ''Stderr: '' @ take 500 err else [])"

definition on_success :: "sys \<Rightarrow> ustring \<Rightarrow> ustring \<Rightarrow> ustring \<Rightarrow> error + pyval" where
  "on_success S method out err =
     (if out = [] \<or> strip out = [] then
        Inl (NoPayload (u ''No output from TypeScript method '' @ method
               @ (if err \<noteq> [] then [10] @ u ''Stderr: '' @ err else [])))
      else
        (let stdout = strip out;
             json_start = (case find_char 123 stdout of
                             Some i \<Rightarrow> Some i
                           | None \<Rightarrow> find_char 91 stdout)
         in (case json_start of
               None \<Rightarrow>
                 Inl (PayloadNotFound (u ''No JSON found in output from '' @ method
                        @ [10] @ u ''Stdout: '' @ take 500 stdout @ stderr_excerpt err))
             | Some i \<Rightarrow>
                 (let json_str = drop i stdout
                  in (case json_loads (lib S) json_str of
                        None \<Rightarrow>
                          Inl (DecodeError (u ''Failed to parse JSON output from '' @ method
                                 @ [10] @ u ''Extracted JSON: '' @ take 500 json_str
                                 @ stderr_excerpt err))
                      | Some data \<Rightarrow>
                          if method = u ''evaluate'' \<and> types_installed S
                          then evaluate_outputs S data
                          else Inr (Plain data))))))"

subsection \<open>\<^verbatim>\<open>_call_ts_method\<close>: a driver that exited with another code\<close>

text \<open>
  Lines 414 to 435.  The lines of the error output are visited last first; the first one
  that starts with a brace after stripping is decoded and ends the search, whether it
  decodes or not.  A decoded line is a dict, since it starts with a brace.
\<close>

fun scan_error_lines :: "pylib \<Rightarrow> ustring \<Rightarrow> ustring \<Rightarrow> ustring list \<Rightarrow> error" where
  "scan_error_lines L pre error_output [] = RemoteMethodFailed (pre @ error_output)"
| "scan_error_lines L pre error_output (line # rest) =
     (if starts_with (strip line) (u ''{'') then
        (case json_loads L (strip line) of
           None \<Rightarrow> RemoteMethodFailed (pre @ error_output)
         | Some error_data \<Rightarrow>
             (case error_data of
                JDict d \<Rightarrow>
                  RemoteMethodFailed
                    (pre @ py_str L (case map_of d (u ''error'') of
                                       Some v \<Rightarrow> v
                                     | None \<Rightarrow> JStr (u ''Unknown error'')))
              | _ \<Rightarrow> Uncaught (u ''AttributeError'')))
      else scan_error_lines L pre error_output rest)"

definition on_called_process_error :: "pylib \<Rightarrow> ustring \<Rightarrow> ustring \<Rightarrow> ustring \<Rightarrow> error" where
  "on_called_process_error L method out err =
     (let error_output = (if err \<noteq> [] then err else if out \<noteq> [] then out else []);
          lines = split_on 10 (strip error_output)
      in scan_error_lines L
           (u ''Failed to call '' @ method @ u '' on TypeScript environment: '')
           error_output (rev lines))"

subsection \<open>\<^verbatim>\<open>_call_ts_method\<close>\<close>

text \<open>
  The whole method.  The temporary file is created and written before the \<^verbatim>\<open>try\<close>
  (its creation is taken to succeed); the \<^verbatim>\<open>finally\<close> clause unlinks it, and an
  unlink of a path that is gone raises \<^verbatim>\<open>FileNotFoundError\<close> in place of whatever the
  body returned or raised.
\<close>

definition call_ts_method ::
  "sys \<Rightarrow> ustring \<Rightarrow> json list \<Rightarrow> (ustring \<times> json) list \<Rightarrow> wrapper \<Rightarrow> world
     \<Rightarrow> (error + pyval) \<times> wrapper \<times> world" where
  "call_ts_method S method args kwargs self w =
     (let compiled = ensure_compiled S self w;
          self1 = fst (snd compiled);
          w1 = snd (snd compiled)
      in (case fst compiled of
            Inl e \<Rightarrow> (Inl e, self1, w1)
          | Inr dist_path \<Rightarrow>
              (let index_js_path = path_div dist_path (u ''index.js'') in
               if index_js_path \<notin> files w1 then
                 (Inl (EntryMissing (u ''Compiled index.js not found at ''
                         @ path_str index_js_path
                         @ u ''. Ensure the environment is built (npm run build).'')),
                  self1, w1)
               else
                 (let abs_path = resolve S w1 index_js_path;
                      path_text = map (\<lambda>c. if c = 92 then 47 else c) (path_str abs_path);
                      import_path = u ''file:///'' @ path_text;
                      script = \<lparr>import_path_json = json_dumps (lib S) (JStr import_path),
                                env_args_json = json_dumps (lib S) (JDict (env_args self1)),
                                method_name = method,
                                args_json = json_dumps (lib S) (JList args),
                                kwargs_json = json_dumps (lib S) (JDict kwargs)\<rparr>;
                      script_path = mkstemp S w1;
                      w2 = w1\<lparr>files := insert script_path (files w1)\<rparr>;
                      result = run_node S script script_path (env_path self1) w2;
                      w3 = w2\<lparr>files := snd result,
                              spawned := spawned w2 @ [[u ''node'', path_str script_path]]\<rparr>;
                      outcome = (case fst result of
                                   NotStarted \<Rightarrow> Inl (Uncaught (u ''OSError''))
                                 | Completed rc out err \<Rightarrow>
                                     if rc \<noteq> 0
                                     then Inl (on_called_process_error (lib S) method out err)
                                     else on_success S method out err)
                  in if script_path \<in> files w3
                     then (outcome, self1, w3\<lparr>files := files w3 - {script_path}\<rparr>)
                     else (Inl (Uncaught (u ''FileNotFoundError'')), self1, w3)))))"

text \<open>
  The path of the driver file that a call writes: none when the call ends before it
  gets there, in \<^verbatim>\<open>_ensure_compiled\<close> or at the check for \<^verbatim>\<open>index.js\<close>.
\<close>

definition driver_file :: "sys \<Rightarrow> wrapper \<Rightarrow> world \<Rightarrow> path option" where
  "driver_file S self w =
     (let compiled = ensure_compiled S self w;
          w1 = snd (snd compiled)
      in (case fst compiled of
            Inl e \<Rightarrow> None
          | Inr dist_path \<Rightarrow>
              if path_div dist_path (u ''index.js'') \<notin> files w1 then None
              else Some (mkstemp S w1)))"

subsection \<open>\<^verbatim>\<open>rollout\<close>\<close>

text \<open>
  The arguments of \<^verbatim>\<open>rollout\<close>.  Of the client only the attributes \<^verbatim>\<open>api_key\<close> and
  \<^verbatim>\<open>base_url\<close> are read (\<open>JNull\<close> when the client has none); \<open>extra_kwargs\<close> is
  \<^verbatim>\<open>**kwargs\<close>.
\<close>

record rollout_call =
  client_api_key :: json
  client_base_url :: json
  model :: json
  prompt :: json
  completion :: json
  answer :: json
  state :: json
  task :: json
  info :: json
  example_id :: json
  sampling_args :: json
  extra_kwargs :: "(ustring \<times> json) list"

text \<open>\<^verbatim>\<open>a or b\<close> and \<^verbatim>\<open>d.get(k)\<close>.\<close>

definition py_or :: "pylib \<Rightarrow> json \<Rightarrow> json \<Rightarrow> json" where
  "py_or L a b = (if truthy L a then a else b)"

definition dict_get :: "(ustring \<times> json) list \<Rightarrow> ustring \<Rightarrow> json" where
  "dict_get d k = (case map_of d k of Some v \<Rightarrow> v | None \<Rightarrow> JNull)"

text \<open>
  \<^verbatim>\<open>tuple(result)\<close>: the elements of a list, the keys of a dict, the characters of a
  string; \<^verbatim>\<open>TypeError\<close> for a value that is not iterable.  A \<^verbatim>\<open>GenerateOutputs\<close>
  never reaches it, since \<^verbatim>\<open>rollout\<close> does not call the method \<^verbatim>\<open>evaluate\<close>.
\<close>

definition tuple_of :: "pyval \<Rightarrow> error + json list" where
  "tuple_of r =
     (case r of
        Plain (JList xs) \<Rightarrow> Inr xs
      | Plain (JDict d) \<Rightarrow> Inr (map (\<lambda>kv. JStr (fst kv)) d)
      | Plain (JStr s) \<Rightarrow> Inr (map (\<lambda>c. JStr [c]) s)
      | _ \<Rightarrow> Inl (Uncaught (u ''TypeError'')))"

text \<open>
  Passing \<^verbatim>\<open>api_key\<close> or \<^verbatim>\<open>base_url\<close> in \<^verbatim>\<open>**kwargs\<close> gives the call of
  \<^verbatim>\<open>_call_ts_method\<close> the same keyword twice, a \<^verbatim>\<open>TypeError\<close>.
\<close>

definition rollout ::
  "sys \<Rightarrow> rollout_call \<Rightarrow> wrapper \<Rightarrow> world \<Rightarrow> (error + json list) \<times> wrapper \<times> world" where
  "rollout S c self w =
     (let kwargs = extra_kwargs c;
          api_key = py_or (lib S) (client_api_key c) (dict_get kwargs (u ''api_key''));
          base_url = py_or (lib S) (client_base_url c) (dict_get kwargs (u ''base_url''))
      in if map_of kwargs (u ''api_key'') = None \<and> map_of kwargs (u ''base_url'') = None
         then
           (let r = call_ts_method S (u ''rollout'')
                      [model c, prompt c, completion c, answer c,
                       py_or (lib S) (state c) (JDict []), task c,
                       py_or (lib S) (info c) (JDict []), example_id c,
                       py_or (lib S) (sampling_args c) (JDict [])]
                      ([(u ''api_key'', api_key),
                        (u ''base_url'',
                         if truthy (lib S) base_url then JStr (py_str (lib S) base_url)
                         else JNull)] @ kwargs)
                      self w
            in (case fst r of
                  Inl e \<Rightarrow> (Inl e, snd r)
                | Inr result \<Rightarrow> (tuple_of result, snd r)))
         else (Inl (Uncaught (u ''TypeError'')), self, w))"

section \<open>Loading an environment\<close>

subsection \<open>\<^verbatim>\<open>load_ts_environment\<close> of the bridge\<close>

text \<open>
  Lines 98 to 138 of the loader.  \<^verbatim>\<open>_patch_sanitize_tool_calls\<close> replaces a function
  of another package and has no effect on anything modelled here.
\<close>

definition load_ts_environment ::
  "ustring \<Rightarrow> ustring \<Rightarrow> (ustring \<times> json) list \<Rightarrow> world \<Rightarrow> error + wrapper" where
  "load_ts_environment eid env_dir_path args w =
     (let env_path = path_div (mk_path env_dir_path) eid in
      if env_path \<notin> files w then
        Inl (ModuleNotFound (u ''Environment directory not found: '' @ path_str env_path
               @ u ''. Ensure the TypeScript environment is installed.''))
      else
        (let package_json = path_div env_path (u ''package.json'');
             index_ts = path_div (path_div env_path (u ''src'')) (u ''index.ts'')
         in if package_json \<notin> files w \<and> index_ts \<notin> files w then
              Inl (EntryPointMissing (u ''Could not find entry point for environment '' @ eid
                     @ u ''. Expected package.json or src/index.ts in '' @ path_str env_path))
            else Inr (new_wrapper eid env_path args)))"

subsection \<open>The host's \<^verbatim>\<open>load_environment\<close>\<close>

text \<open>
  An exception raised by code that is not part of this repository, with its
  \<^verbatim>\<open>str\<close>: an \<^verbatim>\<open>ImportError\<close> (or a subclass such as
  \<^verbatim>\<open>ModuleNotFoundError\<close>), another \<^verbatim>\<open>Exception\<close>, or one outside
  \<^verbatim>\<open>Exception\<close> (\<^verbatim>\<open>KeyboardInterrupt\<close>, \<^verbatim>\<open>SystemExit\<close>).
\<close>

datatype exn = ImportError ustring | OtherException ustring | BaseException ustring

text \<open>
  A native environment object, of which the two attributes that the host sets are kept,
  and a native module: whether it has a \<^verbatim>\<open>load_environment\<close>, what the inspection and
  logging of its signature (lines 91 to 132) raises if anything, and what calling it
  with the given keyword arguments does.
\<close>

record native_env =
  ne_env_id :: json
  ne_env_args :: json

record native_module =
  has_load_environment :: bool
  introspect :: "exn option"
  load_result :: "(ustring \<times> json) list \<Rightarrow> exn + native_env"

text \<open>
  The interpreter state that the host reads and writes (\<^verbatim>\<open>sys.path\<close>, whether
  \<^verbatim>\<open>verifiers_ts_loader\<close> is in \<^verbatim>\<open>sys.modules\<close>, \<^verbatim>\<open>os.environ\<close>) and what it
  asks of its surroundings: \<^verbatim>\<open>importlib.import_module\<close>, whether the import system
  finds the bridge on a search path, \<^verbatim>\<open>Path.is_dir\<close> and \<^verbatim>\<open>Path.resolve\<close>.
\<close>

record interp =
  sys_path :: "ustring list"
  bridge_loaded :: bool
  environ :: "ustring \<Rightarrow> ustring option"

record host =
  hlib :: pylib
  import_module :: "ustring \<Rightarrow> exn + native_module"
  find_bridge :: "ustring list \<Rightarrow> world \<Rightarrow> bool"
  is_dir :: "world \<Rightarrow> path \<Rightarrow> bool"
  hresolve :: "world \<Rightarrow> path \<Rightarrow> path"

text \<open>\<^verbatim>\<open>p.parent\<close>, and \<^verbatim>\<open>_ensure_ts_bridge_on_path\<close>.\<close>

definition path_parent :: "path \<Rightarrow> path" where
  "path_parent p = (case p of Path r cs \<Rightarrow> Path r (butlast cs))"

definition ensure_ts_bridge_on_path :: "host \<Rightarrow> ustring option \<Rightarrow> world \<Rightarrow> interp \<Rightarrow> interp" where
  "ensure_ts_bridge_on_path H env_dir_path w st =
     (if bridge_loaded st then st
      else
        (let env_override = environ st (u ''VERIFIERS_TS_BRIDGE_PATH'');
             bridge_candidates =
               (case env_override of
                  Some v \<Rightarrow> if v \<noteq> [] then [mk_path v] else []
                | None \<Rightarrow> [])
               @ (case env_dir_path of
                    Some d \<Rightarrow>
                      if d \<noteq> []
                      then [path_div (path_parent (hresolve H w (mk_path d))) (u ''python-bridge'')]
                      else []
                  | None \<Rightarrow> [])
         in foldl (\<lambda>st' candidate.
                     if candidate \<in> files w \<and> is_dir H w candidate
                        \<and> path_str candidate \<notin> set (sys_path st')
                     then st'\<lparr>sys_path := path_str candidate # sys_path st'\<rparr>
                     else st')
              st bridge_candidates))"

text \<open>
  \<^verbatim>\<open>_load_ts_environment\<close>: \<open>Inr None\<close> is the return value \<^verbatim>\<open>None\<close>, an \<open>Inl\<close> an
  exception of the bridge's \<^verbatim>\<open>load_ts_environment\<close>, which is not caught here.
\<close>

definition host_load_ts_environment ::
  "host \<Rightarrow> ustring \<Rightarrow> ustring option \<Rightarrow> (ustring \<times> json) list \<Rightarrow> world \<Rightarrow> interp
     \<Rightarrow> (error + wrapper option) \<times> interp" where
  "host_load_ts_environment H eid env_dir_path args w st =
     (let st1 = ensure_ts_bridge_on_path H env_dir_path w st in
      if bridge_loaded st1 \<or> find_bridge H (sys_path st1) w then
        (let st2 = st1\<lparr>bridge_loaded := True\<rparr>;
             from_env =
               (case environ st2 (u ''VERIFIERS_ENV_DIR_PATH'') of
                  Some v \<Rightarrow>
                    if v \<noteq> [] \<and> hresolve H w (mk_path v) \<in> files w
                    then Some (hresolve H w (mk_path v)) else None
                | None \<Rightarrow> None);
             resolved_dir =
               (case env_dir_path of
                  Some d \<Rightarrow>
                    if d \<noteq> [] then
                      (if hresolve H w (mk_path d) \<in> files w
                       then Some (hresolve H w (mk_path d)) else None)
                    else from_env
                | None \<Rightarrow> from_env);
             search_names = [eid, map (\<lambda>c. if c = 45 then 95 else c) eid]
         in (case resolved_dir of
               Some rd \<Rightarrow>
                 if list_ex (\<lambda>name. path_div rd name \<in> files w) search_names
                 then (map_sum id Some (load_ts_environment eid (path_str rd) args w), st2)
                 else (Inr None, st2)
             | None \<Rightarrow>
                 if env_dir_path = None
                 then (map_sum id Some (load_ts_environment eid (u ''./environments'') args w),
                       st2)
                 else (Inr None, st2)))
      else (Inr None, st1))"

text \<open>
  The body of the \<^verbatim>\<open>try\<close> of \<^verbatim>\<open>load_environment\<close> (lines 80 to 140): the
  environment it returns, or the exception that leaves it.
\<close>

definition module_name_of :: "ustring \<Rightarrow> ustring" where
  "module_name_of eid = last (split_on 47 (map (\<lambda>c. if c = 45 then 95 else c) eid))"

definition native_attempt :: "host \<Rightarrow> ustring \<Rightarrow> (ustring \<times> json) list \<Rightarrow> exn + native_env" where
  "native_attempt H eid args =
     (case import_module H (module_name_of eid) of
        Inl ex \<Rightarrow> Inl ex
      | Inr m \<Rightarrow>
          if has_load_environment m then
            (case introspect m of
               Some ex \<Rightarrow> Inl ex
             | None \<Rightarrow>
                 (case load_result m args of
                    Inl ex \<Rightarrow> Inl ex
                  | Inr env_instance \<Rightarrow>
                      Inr (env_instance
                             \<lparr>ne_env_id := py_or (hlib H) (ne_env_id env_instance) (JStr eid),
                              ne_env_args := py_or (hlib H) (ne_env_args env_instance)
                                               (JDict args)\<rparr>)))
          else
            Inl (OtherException
                  (u ''Module '' @ [39] @ module_name_of eid @ [39]
                   @ u '' does not have a '' @ [39] @ u ''load_environment'' @ [39]
                   @ u '' function. This usually means there'' @ [39]
                   @ u ''s a package name collision. Please either:'' @ [10]
                   @ u ''1. Rename your environment (e.g. suffix with '' @ [39] @ u ''-env''
                   @ [39] @ u '')'' @ [10]
                   @ u ''2. Remove unneeded files with the same name'' @ [10]
                   @ u ''3. Check that you'' @ [39]
                   @ u ''ve installed the correct environment package'')))"

text \<open>
  What \<^verbatim>\<open>load_environment\<close> returns or raises: \<open>CouldNotImport\<close> is the
  \<^verbatim>\<open>ValueError\<close> of line 153, \<open>LoadFailed\<close> the \<^verbatim>\<open>RuntimeError\<close> of line 160,
  \<open>BridgeError\<close> an exception of the bridge raised inside the first handler, and
  \<open>NotCaught\<close> an exception that neither handler catches.
\<close>

datatype host_error =
    CouldNotImport ustring
  | LoadFailed ustring
  | BridgeError error
  | NotCaught ustring

datatype environment = Native native_env | Bridged wrapper

text \<open>
  The result, whether \<^verbatim>\<open>_load_ts_environment\<close> was called, and the interpreter state
  afterwards.
\<close>

definition load_environment ::
  "host \<Rightarrow> ustring \<Rightarrow> ustring option \<Rightarrow> (ustring \<times> json) list \<Rightarrow> world \<Rightarrow> interp
     \<Rightarrow> (host_error + environment) \<times> bool \<times> interp" where
  "load_environment H eid env_dir_path args w st =
     (case native_attempt H eid args of
        Inr env_instance \<Rightarrow> (Inr (Native env_instance), False, st)
      | Inl (ImportError msg) \<Rightarrow>
          (let r = host_load_ts_environment H eid env_dir_path args w st in
           (case fst r of
              Inl e \<Rightarrow> (Inl (BridgeError e), True, snd r)
            | Inr (Some ts_env) \<Rightarrow>
                (Inr (Bridged
                        (ts_env\<lparr>env_id := if env_id ts_env \<noteq> [] then env_id ts_env else eid,
                                env_args := if env_args ts_env \<noteq> [] then env_args ts_env
                                            else args\<rparr>)),
                 True, snd r)
            | Inr None \<Rightarrow>
                (Inl (CouldNotImport (u ''Could not import '' @ [39] @ eid @ [39]
                        @ u '' environment. Ensure the package for the '' @ [39] @ eid @ [39]
                        @ u '' environment is installed.'')),
                 True, snd r)))
      | Inl (OtherException msg) \<Rightarrow>
          (Inl (LoadFailed (u ''Failed to load environment '' @ [39] @ eid @ [39] @ u '': ''
                  @ msg)),
           False, st)
      | Inl (BaseException msg) \<Rightarrow> (Inl (NotCaught msg), False, st))"

section \<open>Concrete inputs\<close>

text \<open>
  A library instance for the concrete evaluations below.  Which one it is does not
  matter: none of the inputs evaluated has a float or a code point above 126.
\<close>

definition sample_lib :: pylib where
  "sample_lib =
     \<lparr>float_of_literal = (\<lambda>s. undefined), float_repr = (\<lambda>f. u ''0.0''),
      float_truthy = (\<lambda>f. False), isprintable = (\<lambda>c. False)\<rparr>"

text \<open>
  A system for them: its build ends as \<open>b\<close> and creates the paths \<open>created\<close>, its
  driver ends as \<open>n\<close> and leaves the files alone, \<^verbatim>\<open>pnpm\<close> is not installed and
  neither is \<^verbatim>\<open>verifiers.types\<close>.
\<close>

definition sample_sys :: "proc \<Rightarrow> path set \<Rightarrow> proc \<Rightarrow> sys" where
  "sample_sys b created n =
     \<lparr>lib = sample_lib,
      which_pnpm = (\<lambda>w. False),
      run_build = (\<lambda>cmd cwd w. (b, files w \<union> created)),
      run_node = (\<lambda>script script_path cwd w. (n, files w)),
      mkstemp = (\<lambda>w. mk_path (u ''/tmp/tmpq1w2e3.mjs'')),
      resolve = (\<lambda>w p. p),
      signal_repr = (\<lambda>k. None),
      types_installed = False,
      metadata_valid = (\<lambda>m. True),
      outputs_valid = (\<lambda>m. True)\<rparr>"

text \<open>A wrapper for the environment directory \<^verbatim>\<open>envs/demo\<close>, and two worlds.\<close>

definition demo :: wrapper where
  "demo = new_wrapper (u ''demo'') (mk_path (u ''envs/demo'')) []"

definition unbuilt_world :: world where
  "unbuilt_world = \<lparr>files = {mk_path (u ''envs/demo'')}, spawned = []\<rparr>"

definition built_world :: world where
  "built_world =
     \<lparr>files = {mk_path (u ''envs/demo''), mk_path (u ''envs/demo/dist''),
               mk_path (u ''envs/demo/dist/index.js'')},
      spawned = []\<rparr>"

definition demo_call :: rollout_call where
  "demo_call =
     \<lparr>client_api_key = JStr (u ''key''), client_base_url = JNull,
      model = JStr (u ''m''), prompt = JList [], completion = JNull, answer = JStr [],
      state = JNull, task = JStr (u ''default''), info = JNull, example_id = JInt 0,
      sampling_args = JNull, extra_kwargs = []\<rparr>"

text \<open>
  Two build tools: one that fails every time and leaves nothing behind, one that reports
  success and creates the \<^verbatim>\<open>dist\<close> directory without an \<^verbatim>\<open>index.js\<close> in it.
\<close>

definition always_failing :: sys where
  "always_failing = sample_sys (Completed 1 [] (u ''boom'')) {} NotStarted"

definition half_built :: sys where
  "half_built = sample_sys (Completed 0 [] []) {mk_path (u ''envs/demo/dist'')} NotStarted"

text \<open>
  A host whose import of the native module ends as given and that cannot find the
  bridge, an interpreter state, and a native module whose \<^verbatim>\<open>load_environment\<close> raises
  the given exception.
\<close>

definition sample_host :: "(exn + native_module) \<Rightarrow> host" where
  "sample_host imported =
     \<lparr>hlib = sample_lib, import_module = (\<lambda>name. imported), find_bridge = (\<lambda>sp w. False),
      is_dir = (\<lambda>w p. False), hresolve = (\<lambda>w p. p)\<rparr>"

definition sample_interp :: interp where
  "sample_interp = \<lparr>sys_path = [], bridge_loaded = False, environ = (\<lambda>k. None)\<rparr>"

definition module_raising :: "exn \<Rightarrow> native_module" where
  "module_raising ex =
     \<lparr>has_load_environment = True, introspect = None, load_result = (\<lambda>args. Inl ex)\<rparr>"

section \<open>The decoder has calls enough\<close>

text \<open>
  A scanner that succeeds returns a suffix of its input, so the bound that
  \<open>json_loads\<close> starts with is never used up: \<open>OutOfFuel\<close> is not a result of
  decoding.
\<close>

lemma skip_ws_le: "length (skip_ws x) \<le> length x"
  by (simp add: skip_ws_def length_dropWhile_le)

lemma skip_ws_cons: "skip_ws x = d # r \<Longrightarrow> Suc (length r) \<le> length x"
  using skip_ws_le[of x] by simp

lemma cons_char_Some:
  "cons_char c t = Some kr \<Longrightarrow> \<exists>kr'. t = Some kr' \<and> snd kr = snd kr'"
  by (auto simp: cons_char_def)

lemma scanstring_len:
  "scanstring cs = Some kr \<Longrightarrow> length (snd kr) \<le> length cs"
proof (induction "length cs" arbitrary: cs kr rule: less_induct)
  case less
  show ?case
  proof (cases cs)
    case Nil
    with less.prems show ?thesis by simp
  next
    case (Cons c cs')
    from less.prems have
      "(kr = ([], cs'))
       \<or> (\<exists>t x. length t \<le> length cs' \<and> cons_char x (scanstring t) = Some kr)"
      unfolding Cons
      apply (subst (asm) scanstring.simps(2))
      apply (simp split: if_splits list.splits option.splits)
         apply (rule disjI2, rule exI, rule conjI[rotated], rule exI, assumption, simp)+
      done
    then show ?thesis
    proof
      assume "kr = ([], cs')"
      then show ?thesis by (simp add: Cons)
    next
      assume "\<exists>t x. length t \<le> length cs' \<and> cons_char x (scanstring t) = Some kr"
      then obtain t x kr' where t: "length t \<le> length cs'" "scanstring t = Some kr'"
        "snd kr = snd kr'"
        using cons_char_Some by blast
      from t(1) have "length t < length cs" by (simp add: Cons)
      from less.hyps[OF this t(2)] t show ?thesis by (simp add: Cons)
    qed
  qed
qed

lemma match_number_len:
  "match_number L s = Some vr \<Longrightarrow> length (snd vr) \<le> length s"
  unfolding match_number_def Let_def
  by (auto split: if_splits)

lemma consume_step:
  assumes A: "\<And>acc s v r. parse_array L n acc s = Ok v r \<Longrightarrow> length r \<le> length s"
    and O: "\<And>acc s v r. parse_object L n acc s = Ok v r \<Longrightarrow> length r \<le> length s"
    and ok: "scan_once L (Suc n) s = Ok v r"
  shows "length r \<le> length s"
proof (cases s)
  case Nil
  with ok show ?thesis by (subst (asm) scan_once.simps) simp
next
  case (Cons c cs)
  consider (str) "c = 34" | (obj) "c = 123" | (arr) "c = 91" | (other) "c \<noteq> 34" "c \<noteq> 123" "c \<noteq> 91"
    by blast
  then show ?thesis
  proof cases
    case str
    with ok Cons obtain kr where "scanstring cs = Some kr" "r = snd kr"
      by (subst (asm) scan_once.simps) (auto simp: of_option_def split: option.splits)
    with scanstring_len[of cs kr] show ?thesis by (simp add: Cons)
  next
    case obj
    show ?thesis
    proof (cases "skip_ws cs")
      case Nil
      with ok Cons obj show ?thesis by (subst (asm) scan_once.simps) simp
    next
      case (Cons d r0)
      with ok \<open>s = c # cs\<close> obj
      have "r = r0 \<or> parse_object L n [] (d # r0) = Ok v r"
        by (subst (asm) scan_once.simps) (simp split: if_splits)
      with O[of "[]" "d # r0" v r] skip_ws_cons[OF Cons] show ?thesis
        by (auto simp: \<open>s = c # cs\<close>)
    qed
  next
    case arr
    show ?thesis
    proof (cases "skip_ws cs")
      case Nil
      with ok Cons arr show ?thesis by (subst (asm) scan_once.simps) simp
    next
      case (Cons d r0)
      with ok \<open>s = c # cs\<close> arr
      have "r = r0 \<or> parse_array L n [] (d # r0) = Ok v r"
        by (subst (asm) scan_once.simps) (simp split: if_splits)
      with A[of "[]" "d # r0" v r] skip_ws_cons[OF Cons] show ?thesis
        by (auto simp: \<open>s = c # cs\<close>)
    qed
  next
    case other
    with ok Cons have "length r \<le> length s \<or> (\<exists>vr. match_number L s = Some vr \<and> r = snd vr)"
      by (subst (asm) scan_once.simps)
        (auto simp: of_option_def split: if_splits option.splits)
    with match_number_len show ?thesis by auto
  qed
qed

lemma consume_array_step:
  assumes V: "\<And>s v r. scan_once L n s = Ok v r \<Longrightarrow> length r \<le> length s"
    and A: "\<And>acc s v r. parse_array L n acc s = Ok v r \<Longrightarrow> length r \<le> length s"
    and ok: "parse_array L (Suc n) acc s = Ok v r"
  shows "length r \<le> length s"
proof (cases "scan_once L n s")
  case (Ok v1 r1)
  note r1 = V[OF Ok]
  show ?thesis
  proof (cases "skip_ws r1")
    case Nil
    with ok Ok show ?thesis by (subst (asm) parse_array.simps) simp
  next
    case (Cons d r2)
    with ok Ok have "r = r2 \<or> parse_array L n (acc @ [v1]) (skip_ws r2) = Ok v r"
      by (subst (asm) parse_array.simps) (simp split: if_splits)
    with A[of "acc @ [v1]" "skip_ws r2" v r] skip_ws_cons[OF Cons] skip_ws_le[of r2] r1
    show ?thesis by auto
  qed
next
  case Malformed
  with ok show ?thesis by (subst (asm) parse_array.simps) simp
next
  case OutOfFuel
  with ok show ?thesis by (subst (asm) parse_array.simps) simp
qed

lemma consume_object_step:
  assumes V: "\<And>s v r. scan_once L n s = Ok v r \<Longrightarrow> length r \<le> length s"
    and O: "\<And>acc s v r. parse_object L n acc s = Ok v r \<Longrightarrow> length r \<le> length s"
    and ok: "parse_object L (Suc n) acc s = Ok v r"
  shows "length r \<le> length s"
proof -
  have unfold: "parse_object L (Suc n) acc s =
      (case s of [] \<Rightarrow> Malformed
       | q # cs \<Rightarrow>
          (if q \<noteq> 34 then Malformed
           else (case scanstring cs of
             None \<Rightarrow> Malformed
           | Some kr \<Rightarrow>
              (case skip_ws (snd kr) of
                 [] \<Rightarrow> Malformed
               | c # r \<Rightarrow>
                   (if c \<noteq> 58 then Malformed
                    else (case scan_once L n (skip_ws r) of
                      Ok v r' \<Rightarrow>
                       (case skip_ws r' of
                          [] \<Rightarrow> Malformed
                        | d # r'' \<Rightarrow>
                            if d = 125 then Ok (JDict (AList.update (fst kr) v acc)) r''
                            else if d = 44
                              then parse_object L n (AList.update (fst kr) v acc)
                                     (skip_ws r'')
                            else Malformed)
                    | Malformed \<Rightarrow> Malformed
                    | OutOfFuel \<Rightarrow> OutOfFuel))))))"
    by (subst parse_object.simps) (unfold diff_Suc_1, simp)
  from ok[unfolded unfold] obtain cs kr c r0 where s: "s = 34 # cs"
    and k: "scanstring cs = Some kr"
    and w: "skip_ws (snd kr) = c # r0"
    and rest: "(case scan_once L n (skip_ws r0) of
        Ok v1 r1 \<Rightarrow> (case skip_ws r1 of [] \<Rightarrow> Malformed
          | d # r2 \<Rightarrow> if d = 125 then Ok (JDict (AList.update (fst kr) v1 acc)) r2
              else if d = 44 then parse_object L n (AList.update (fst kr) v1 acc) (skip_ws r2)
              else Malformed)
      | Malformed \<Rightarrow> Malformed | OutOfFuel \<Rightarrow> OutOfFuel) = Ok v r"
    by (auto split: list.splits if_splits option.splits)
  from scanstring_len[OF k] skip_ws_cons[OF w] skip_ws_le[of r0]
  have l0: "length (skip_ws r0) \<le> length s" by (simp add: s)
  show ?thesis
  proof (cases "scan_once L n (skip_ws r0)")
    case (Ok v1 r1)
    note r1 = V[OF Ok]
    show ?thesis
    proof (cases "skip_ws r1")
      case Nil
      with rest Ok show ?thesis by simp
    next
      case (Cons d r2)
      with rest Ok
      have "r = r2 \<or> parse_object L n (AList.update (fst kr) v1 acc) (skip_ws r2) = Ok v r"
        by (simp split: if_splits)
      with O[of "AList.update (fst kr) v1 acc" "skip_ws r2" v r] skip_ws_cons[OF Cons]
        skip_ws_le[of r2] r1 l0
      show ?thesis by auto
    qed
  next
    case Malformed
    with rest show ?thesis by simp
  next
    case OutOfFuel
    with rest show ?thesis by simp
  qed
qed

lemma consume_all:
  "(\<forall>s v r. scan_once L n s = Ok v r \<longrightarrow> length r \<le> length s)
   \<and> (\<forall>acc s v r. parse_array L n acc s = Ok v r \<longrightarrow> length r \<le> length s)
   \<and> (\<forall>acc s v r. parse_object L n acc s = Ok v r \<longrightarrow> length r \<le> length s)"
proof (induction n)
  case 0
  show ?case by (simp add: scan_once.simps parse_array.simps parse_object.simps)
next
  case (Suc n)
  then have V: "\<And>s v r. scan_once L n s = Ok v r \<Longrightarrow> length r \<le> length s"
    and A: "\<And>acc s v r. parse_array L n acc s = Ok v r \<Longrightarrow> length r \<le> length s"
    and O: "\<And>acc s v r. parse_object L n acc s = Ok v r \<Longrightarrow> length r \<le> length s"
    by blast+
  show ?case
  proof (intro conjI allI impI)
    fix s v r assume "scan_once L (Suc n) s = Ok v r"
    with A O show "length r \<le> length s" by (rule consume_step)
  next
    fix acc s v r assume "parse_array L (Suc n) acc s = Ok v r"
    with V A show "length r \<le> length s" by (rule consume_array_step)
  next
    fix acc s v r assume "parse_object L (Suc n) acc s = Ok v r"
    with V O show "length r \<le> length s" by (rule consume_object_step)
  qed
qed

lemma scan_once_len: "scan_once L n s = Ok v r \<Longrightarrow> length r \<le> length s"
  using consume_all by blast


lemma of_option_fuel: "of_option x \<noteq> OutOfFuel"
  by (simp add: of_option_def split: option.splits)

lemma fuel_step:
  assumes A: "\<And>acc s. 2 * length s + 2 \<le> n \<Longrightarrow> parse_array L n acc s \<noteq> OutOfFuel"
    and O: "\<And>acc s. 2 * length s + 2 \<le> n \<Longrightarrow> parse_object L n acc s \<noteq> OutOfFuel"
    and n: "2 * length s + 1 \<le> Suc n"
  shows "scan_once L (Suc n) s \<noteq> OutOfFuel"
proof (cases s)
  case Nil
  then show ?thesis by (subst scan_once.simps) simp
next
  case (Cons c cs)
  have inner: "2 * length t + 2 \<le> n" if "skip_ws cs = t" for t
    using skip_ws_le[of cs] n that by (simp add: Cons)
  show ?thesis
  proof (cases "skip_ws cs")
    case Nil
    then show ?thesis
      by (subst scan_once.simps) (simp add: Cons of_option_fuel)
  next
    case (Cons d r)
    from A[OF inner[OF Cons]] O[OF inner[OF Cons]]
    show ?thesis
      by (subst scan_once.simps) (simp add: \<open>s = c # cs\<close> Cons of_option_fuel)
  qed
qed

lemma fuel_array_step:
  assumes V: "\<And>s. 2 * length s + 1 \<le> n \<Longrightarrow> scan_once L n s \<noteq> OutOfFuel"
    and A: "\<And>acc s. 2 * length s + 2 \<le> n \<Longrightarrow> parse_array L n acc s \<noteq> OutOfFuel"
    and n: "2 * length s + 2 \<le> Suc n"
  shows "parse_array L (Suc n) acc s \<noteq> OutOfFuel"
proof (cases "scan_once L n s")
  case (Ok v r)
  note len = scan_once_len[OF Ok]
  show ?thesis
  proof (cases "skip_ws r")
    case Nil
    with Ok show ?thesis by (subst parse_array.simps) simp
  next
    case (Cons d r')
    from skip_ws_cons[OF Cons] skip_ws_le[of r'] len n
    have "2 * length (skip_ws r') + 2 \<le> n" by simp
    from A[OF this, of "acc @ [v]"] Ok Cons show ?thesis
      by (subst parse_array.simps) simp
  qed
next
  case Malformed
  then show ?thesis by (subst parse_array.simps) simp
next
  case OutOfFuel
  moreover from n have "2 * length s + 1 \<le> n" by simp
  ultimately show ?thesis using V by blast
qed

lemma fuel_object_step:
  assumes V: "\<And>s. 2 * length s + 1 \<le> n \<Longrightarrow> scan_once L n s \<noteq> OutOfFuel"
    and O: "\<And>acc s. 2 * length s + 2 \<le> n \<Longrightarrow> parse_object L n acc s \<noteq> OutOfFuel"
    and n: "2 * length s + 2 \<le> Suc n"
    and out: "parse_object L (Suc n) acc s = OutOfFuel"
  shows False
proof -
  have unfold: "parse_object L (Suc n) acc s =
      (case s of [] \<Rightarrow> Malformed
       | q # cs \<Rightarrow>
          (if q \<noteq> 34 then Malformed
           else (case scanstring cs of
             None \<Rightarrow> Malformed
           | Some kr \<Rightarrow>
              (case skip_ws (snd kr) of
                 [] \<Rightarrow> Malformed
               | c # r \<Rightarrow>
                   (if c \<noteq> 58 then Malformed
                    else (case scan_once L n (skip_ws r) of
                      Ok v r' \<Rightarrow>
                       (case skip_ws r' of
                          [] \<Rightarrow> Malformed
                        | d # r'' \<Rightarrow>
                            if d = 125 then Ok (JDict (AList.update (fst kr) v acc)) r''
                            else if d = 44
                              then parse_object L n (AList.update (fst kr) v acc)
                                     (skip_ws r'')
                            else Malformed)
                    | Malformed \<Rightarrow> Malformed
                    | OutOfFuel \<Rightarrow> OutOfFuel))))))"
    by (subst parse_object.simps) (unfold diff_Suc_1, simp)
  from out[unfolded unfold] obtain cs kr c r0 where s: "s = 34 # cs"
    and k: "scanstring cs = Some kr"
    and w: "skip_ws (snd kr) = c # r0"
    and rest: "(case scan_once L n (skip_ws r0) of
        Ok v1 r1 \<Rightarrow> (case skip_ws r1 of [] \<Rightarrow> Malformed
          | d # r2 \<Rightarrow> if d = 125 then Ok (JDict (AList.update (fst kr) v1 acc)) r2
              else if d = 44 then parse_object L n (AList.update (fst kr) v1 acc) (skip_ws r2)
              else Malformed)
      | Malformed \<Rightarrow> Malformed | OutOfFuel \<Rightarrow> OutOfFuel) = OutOfFuel"
    by (auto split: list.splits if_splits option.splits)
  from scanstring_len[OF k] skip_ws_cons[OF w] skip_ws_le[of r0]
  have l0: "length (skip_ws r0) + 2 \<le> length s" by (simp add: s)
  with n have v: "2 * length (skip_ws r0) + 1 \<le> n" by simp
  show False
  proof (cases "scan_once L n (skip_ws r0)")
    case (Ok v1 r1)
    note len = scan_once_len[OF Ok]
    show ?thesis
    proof (cases "skip_ws r1")
      case Nil
      with rest Ok show ?thesis by simp
    next
      case (Cons d r2)
      from skip_ws_cons[OF Cons] skip_ws_le[of r2] len l0 n
      have "2 * length (skip_ws r2) + 2 \<le> n" by simp
      from O[OF this, of "AList.update (fst kr) v1 acc"] rest Ok Cons show ?thesis
        by (simp split: if_splits)
    qed
  next
    case Malformed
    with rest show ?thesis by simp
  next
    case OutOfFuel
    with V[OF v] show ?thesis by simp
  qed
qed

lemma fuel_all:
  "(\<forall>s. 2 * length s + 1 \<le> n \<longrightarrow> scan_once L n s \<noteq> OutOfFuel)
   \<and> (\<forall>acc s. 2 * length s + 2 \<le> n \<longrightarrow> parse_array L n acc s \<noteq> OutOfFuel)
   \<and> (\<forall>acc s. 2 * length s + 2 \<le> n \<longrightarrow> parse_object L n acc s \<noteq> OutOfFuel)"
proof (induction n)
  case 0
  show ?case by simp
next
  case (Suc n)
  then have V: "\<And>s. 2 * length s + 1 \<le> n \<Longrightarrow> scan_once L n s \<noteq> OutOfFuel"
    and A: "\<And>acc s. 2 * length s + 2 \<le> n \<Longrightarrow> parse_array L n acc s \<noteq> OutOfFuel"
    and O: "\<And>acc s. 2 * length s + 2 \<le> n \<Longrightarrow> parse_object L n acc s \<noteq> OutOfFuel"
    by blast+
  show ?case
  proof (intro conjI allI impI)
    fix s :: ustring assume "2 * length s + 1 \<le> Suc n"
    with A O show "scan_once L (Suc n) s \<noteq> OutOfFuel" by (rule fuel_step)
  next
    fix acc and s :: ustring assume "2 * length s + 2 \<le> Suc n"
    with V A show "parse_array L (Suc n) acc s \<noteq> OutOfFuel" by (rule fuel_array_step)
  next
    fix acc and s :: ustring assume "2 * length s + 2 \<le> Suc n"
    with V O show "parse_object L (Suc n) acc s \<noteq> OutOfFuel"
      using fuel_object_step by blast
  qed
qed

lemma json_loads_fuel:
  "scan_once L (2 * length s + 1) (skip_ws s) \<noteq> OutOfFuel"
proof -
  from skip_ws_le[of s] have "2 * length (skip_ws s) + 1 \<le> 2 * length s + 1" by simp
  with fuel_all show ?thesis by blast
qed


section \<open>Properties of the normalization\<close>

lemma keys_distinct:
  "u ''type'' \<noteq> u ''function''" "u ''function'' \<noteq> u ''type''"
  "u ''name'' \<noteq> u ''arguments''" "u ''arguments'' \<noteq> u ''name''"
  by (simp_all add: u_def)

text \<open>Every normalized tool call has the shape the data model asks for.\<close>

lemma normalize_tool_call_shape:
  "\<exists>td f n a. normalize_tool_call L tc = JDict td
     \<and> (\<exists>t. map_of td (u ''type'') = Some (JStr t))
     \<and> map_of td (u ''function'') = Some (JDict f)
     \<and> map_of f (u ''name'') = Some (JStr n)
     \<and> map_of f (u ''arguments'') = Some (JStr a)"
proof -
  define td0 where "td0 = (case tc of JDict d \<Rightarrow> d
      | _ \<Rightarrow> [(u ''function'', JDict [(u ''name'', JStr (py_str L tc))])])"
  define td1 where "td1 = (case map_of td0 (u ''type'') of Some (JStr t) \<Rightarrow> td0
      | _ \<Rightarrow> AList.update (u ''type'') (JStr (u ''function'')) td0)"
  define f0 where "f0 = (case map_of td1 (u ''function'') of
      Some v \<Rightarrow> if truthy L v then v else JDict [] | None \<Rightarrow> JDict [])"
  define f1 where "f1 = (case f0 of JDict f \<Rightarrow> f | _ \<Rightarrow> [(u ''name'', JStr (py_str L f0))])"
  define f2 where "f2 = (case map_of f1 (u ''name'') of Some (JStr n) \<Rightarrow> f1
      | _ \<Rightarrow> AList.update (u ''name'') (JStr (u ''unknown_tool'')) f1)"
  define f3 where "f3 = (case map_of f2 (u ''arguments'') of
        None \<Rightarrow> AList.update (u ''arguments'') (JStr (u ''{}'')) f2
      | Some (JStr a) \<Rightarrow> f2
      | Some a \<Rightarrow> AList.update (u ''arguments'') (JStr (json_dumps L a)) f2)"
  have res: "normalize_tool_call L tc = JDict (AList.update (u ''function'') (JDict f3) td1)"
    unfolding normalize_tool_call_def Let_def td0_def td1_def f0_def f1_def f2_def f3_def ..
  have t1: "\<exists>t. map_of td1 (u ''type'') = Some (JStr t)"
    unfolding td1_def by (simp add: update_conv' split: option.splits json.splits)
  have n2: "\<exists>n. map_of f2 (u ''name'') = Some (JStr n)"
    unfolding f2_def by (simp add: update_conv' split: option.splits json.splits)
  have n3: "\<exists>n. map_of f3 (u ''name'') = Some (JStr n)"
    using n2 unfolding f3_def
    by (simp add: update_conv' keys_distinct split: option.splits json.splits)
  have a3: "\<exists>a. map_of f3 (u ''arguments'') = Some (JStr a)"
    unfolding f3_def by (simp add: update_conv' split: option.splits json.splits)
  from t1 n3 a3 show ?thesis
    unfolding res by (auto simp: update_conv' keys_distinct)
qed

text \<open>A tool call of that shape is left as it is.\<close>

lemma normalize_shaped:
  assumes "map_of td (u ''type'') = Some (JStr t)"
    and "map_of td (u ''function'') = Some (JDict f)"
    and "map_of f (u ''name'') = Some (JStr n)"
    and "map_of f (u ''arguments'') = Some (JStr a)"
  shows "normalize_tool_call L (JDict td) = JDict td"
proof -
  from assms(3) have "f \<noteq> []" by auto
  with assms show ?thesis
    unfolding normalize_tool_call_def Let_def
    by (simp add: update_triv)
qed

lemma normalize_tool_call_idem:
  "normalize_tool_call L (normalize_tool_call L tc) = normalize_tool_call L tc"
  using normalize_tool_call_shape[of L tc] normalize_shaped by metis

lemma normalize_tool_call_twice:
  "normalize_tool_call L \<circ> normalize_tool_call L = normalize_tool_call L"
  by (rule ext) (simp add: normalize_tool_call_idem)

lemma normalize_message_idem:
  "normalize_message L (normalize_message L msg) = normalize_message L msg"
proof (cases msg)
  case (JDict m)
  show ?thesis
  proof (cases "\<exists>tcs. map_of m (u ''tool_calls'') = Some (JList tcs)")
    case True
    then obtain tcs where tcs: "map_of m (u ''tool_calls'') = Some (JList tcs)" by blast
    have once: "normalize_message L msg =
        JDict (AList.update (u ''tool_calls'') (JList (map (normalize_tool_call L) tcs)) m)"
      by (simp add: normalize_message_def JDict tcs)
    show ?thesis
      unfolding once
      by (simp add: normalize_message_def update_conv' normalize_tool_call_twice)
  next
    case False
    then have "normalize_message L msg = msg"
      by (auto simp: normalize_message_def JDict split: option.splits json.splits)
    then show ?thesis by simp
  qed
qed (simp_all add: normalize_message_def)

lemma normalize_message_twice:
  "normalize_message L \<circ> normalize_message L = normalize_message L"
  by (rule ext) (simp add: normalize_message_idem)

text \<open>
  C6.  Message-record normalization is idempotent: for every decoded value
  \<open>messages\<close>, applying \<^verbatim>\<open>normalize_tool_calls_in_messages\<close> to its own output
  returns that output, with every dict in the same key order.
\<close>

theorem normalize_idempotent:
  "normalize_tool_calls_in_messages L (normalize_tool_calls_in_messages L messages) =
   normalize_tool_calls_in_messages L messages"
  by (cases messages)
    (simp_all add: normalize_tool_calls_in_messages_def normalize_message_twice)

text \<open>
  C1, as the code has it.  The tool value \<^verbatim>\<open>{"function": {"name": "f"}}\<close> is
  normalized to a record equal to
  \<^verbatim>\<open>{"type": "function", "function": {"name": "f", "arguments": "{}"}}\<close>.  A tool
  value that is a string \<open>s\<close>, such as \<^verbatim>\<open>"x"\<close>, is normalized to a record equal to
  \<^verbatim>\<open>{"type": "function", "function": {"name": s, "arguments": "{}"}}\<close>: the
  function name is the string itself, not the placeholder.  Both hold for a tool call
  inside the \<^verbatim>\<open>tool_calls\<close> of a message.
\<close>

theorem tool_call_examples:
  "same_value
     (normalize_tool_call L (JDict [(u ''function'', JDict [(u ''name'', JStr (u ''f''))])]))
     (JDict [(u ''type'', JStr (u ''function'')),
             (u ''function'',
              JDict [(u ''name'', JStr (u ''f'')), (u ''arguments'', JStr (u ''{}''))])])
   \<and> same_value
     (normalize_tool_call L (JStr s))
     (JDict [(u ''type'', JStr (u ''function'')),
             (u ''function'', JDict [(u ''name'', JStr s), (u ''arguments'', JStr (u ''{}''))])])
   \<and> normalize_tool_calls_in_messages L
       (JList [JDict [(u ''role'', JStr (u ''assistant'')),
                      (u ''tool_calls'',
                       JList [JDict [(u ''function'', JDict [(u ''name'', JStr (u ''f''))])],
                              JStr (u ''x'')])]])
     = JList [JDict [(u ''role'', JStr (u ''assistant'')),
                     (u ''tool_calls'',
                      JList [JDict [(u ''function'',
                                     JDict [(u ''name'', JStr (u ''f'')),
                                            (u ''arguments'', JStr (u ''{}''))]),
                                    (u ''type'', JStr (u ''function''))],
                             JDict [(u ''function'',
                                     JDict [(u ''name'', JStr (u ''x'')),
                                            (u ''arguments'', JStr (u ''{}''))]),
                                    (u ''type'', JStr (u ''function''))]])]]"
  by (simp add: same_value_def normalize_tool_calls_in_messages_def normalize_message_def
      normalize_tool_call_def py_str_def u_def)

text \<open>
  C1 as stated fails on its second example: the record that the scalar \<^verbatim>\<open>"x"\<close> is
  normalized to is not equal to the one whose function name is \<^verbatim>\<open>"unknown_tool"\<close>.
\<close>

theorem tool_call_scalar_counterexample:
  "\<not> same_value
     (normalize_tool_call sample_lib (JStr (u ''x'')))
     (JDict [(u ''type'', JStr (u ''function'')),
             (u ''function'',
              JDict [(u ''name'', JStr (u ''unknown_tool'')),
                     (u ''arguments'', JStr (u ''{}''))])])"
  by (simp add: same_value_def normalize_tool_call_def py_str_def u_def)

section \<open>Properties of the build step\<close>

lemmas path_simps = mk_path_def path_div_def path_str_def u_def

lemmas demo_simps = sample_sys_def sample_lib_def demo_def new_wrapper_def unbuilt_world_def
  built_world_def

lemma ensure_cached:
  "compiled_path self = Some p \<Longrightarrow> ensure_compiled S self w = (Inr p, self, w)"
  by (simp add: ensure_compiled_def)

lemma ensure_dist_exists:
  "compiled_path self = None \<Longrightarrow> path_div (env_path self) (u ''dist'') \<in> files w \<Longrightarrow>
   ensure_compiled S self w =
     (Inr (path_div (env_path self) (u ''dist'')),
      self\<lparr>compiled_path := Some (path_div (env_path self) (u ''dist''))\<rparr>, w)"
  by (simp add: ensure_compiled_def Let_def)

lemma ensure_success_caches:
  assumes "ensure_compiled S self w = (Inr p, self', w')"
  shows "compiled_path self' = Some p"
  using assms unfolding ensure_compiled_def Let_def
  by (auto split: option.splits if_splits proc.splits)

lemma ensure_failure_keeps:
  assumes "ensure_compiled S self w = (Inl e, self', w')"
  shows "self' = self \<and> compiled_path self = None"
  using assms unfolding ensure_compiled_def Let_def
  by (auto split: option.splits if_splits proc.splits)

lemma ensure_builds:
  assumes "compiled_path self = None" "path_div (env_path self) (u ''dist'') \<notin> files w"
  shows "spawned (snd (snd (ensure_compiled S self w))) = spawned w @ [build_cmd S self w]"
  using assms unfolding ensure_compiled_def Let_def
  by (auto split: option.splits if_splits proc.splits)

lemma ensure_spawns_le:
  "length (spawned (snd (snd (ensure_compiled S self w)))) \<le> Suc (length (spawned w))"
  unfolding ensure_compiled_def Let_def
  by (auto split: option.splits if_splits proc.splits)

text \<open>
  C5.  When the build is run (nothing cached, no \<^verbatim>\<open>dist\<close> directory) and ends with a
  return code other than zero, \<^verbatim>\<open>_ensure_compiled\<close> raises \<open>BuildFailed\<close>, and the
  message carries the captured error text, or the captured output when there is no
  error text, or the text of the exception when both are empty.  When it ends with
  return code zero and \<^verbatim>\<open>dist/index.js\<close> does not exist afterwards,
  \<^verbatim>\<open>_ensure_compiled\<close> raises \<open>BuildIncomplete\<close>.
\<close>

theorem build_failures:
  assumes "compiled_path self = None"
    and "path_div (env_path self) (u ''dist'') \<notin> files w"
    and "run_build S (build_cmd S self w) (env_path self) w = (Completed rc out err, fs)"
  shows "(rc \<noteq> 0 \<longrightarrow>
            fst (ensure_compiled S self w) =
              Inl (BuildFailed (u ''Failed to compile TypeScript environment '' @ env_id self
                     @ u '': ''
                     @ (if err \<noteq> [] then err else if out \<noteq> [] then out
                        else called_process_error_str S (build_cmd S self w) rc))))
       \<and> (rc = 0 \<and> path_div (path_div (env_path self) (u ''dist'')) (u ''index.js'') \<notin> fs \<longrightarrow>
            fst (ensure_compiled S self w) =
              Inl (BuildIncomplete (u ''Build completed but index.js not found at ''
                     @ path_str (path_div (path_div (env_path self) (u ''dist'')) (u ''index.js''))
                     @ u ''. Build output: '' @ out)))"
  using assms by (simp add: ensure_compiled_def Let_def)

theorem build_failures_witness:
  "fst (ensure_compiled
          (sample_sys (Completed 1 (u ''tsc output'') (u ''error TS2304'')) {} NotStarted)
          demo unbuilt_world)
     = Inl (BuildFailed (u ''Failed to compile TypeScript environment demo: error TS2304''))
   \<and> fst (ensure_compiled (sample_sys (Completed 0 (u ''done'') []) {} NotStarted)
          demo unbuilt_world)
     = Inl (BuildIncomplete
         (u ''Build completed but index.js not found at envs/demo/dist/index.js. Build output: done''))"
proof -
  let ?S1 = "sample_sys (Completed 1 (u ''tsc output'') (u ''error TS2304'')) {} NotStarted"
  let ?S2 = "sample_sys (Completed 0 (u ''done'') []) {} NotStarted"
  have a: "compiled_path demo = None" by (simp add: demo_simps)
  have b: "path_div (env_path demo) (u ''dist'') \<notin> files unbuilt_world"
    by (simp add: demo_simps path_simps)
  have c1: "run_build ?S1 (build_cmd ?S1 demo unbuilt_world) (env_path demo) unbuilt_world
      = (Completed 1 (u ''tsc output'') (u ''error TS2304''), files unbuilt_world)"
    by (simp add: sample_sys_def)
  have c2: "run_build ?S2 (build_cmd ?S2 demo unbuilt_world) (env_path demo) unbuilt_world
      = (Completed 0 (u ''done'') [], files unbuilt_world)"
    by (simp add: sample_sys_def)
  have d: "path_div (path_div (env_path demo) (u ''dist'')) (u ''index.js'') \<notin> files unbuilt_world"
    by (simp add: demo_simps path_simps)
  from build_failures[OF a b c1] build_failures[OF a b c2] d
  show ?thesis
    by (simp add: demo_simps path_simps)
qed

text \<open>
  C4, as the code has it.  A call of \<^verbatim>\<open>_ensure_compiled\<close> that finds nothing cached
  and the \<^verbatim>\<open>dist\<close> directory on disk returns that directory and caches it, and leaves
  the world as it was: no subprocess, no look at what the directory holds.  A call that
  succeeds has run at most one subprocess and has cached the path it returns, and
  from then on every call, in whatever world, returns that path and leaves wrapper and
  world alone.  Nothing is said of calls that fail: they cache nothing.
\<close>

theorem build_memoized:
  "(compiled_path self = None \<and> path_div (env_path self) (u ''dist'') \<in> files w \<longrightarrow>
      ensure_compiled S self w =
        (Inr (path_div (env_path self) (u ''dist'')),
         self\<lparr>compiled_path := Some (path_div (env_path self) (u ''dist''))\<rparr>, w))
   \<and> (ensure_compiled S self w = (Inr p, self', w') \<longrightarrow>
        compiled_path self' = Some p
        \<and> length (spawned w') \<le> Suc (length (spawned w))
        \<and> (\<forall>w''. ensure_compiled S self' w'' = (Inr p, self', w'')))"
proof (intro conjI impI)
  assume "compiled_path self = None \<and> path_div (env_path self) (u ''dist'') \<in> files w"
  then show "ensure_compiled S self w =
        (Inr (path_div (env_path self) (u ''dist'')),
         self\<lparr>compiled_path := Some (path_div (env_path self) (u ''dist''))\<rparr>, w)"
    by (simp add: ensure_dist_exists)
next
  assume r: "ensure_compiled S self w = (Inr p, self', w')"
  then show c: "compiled_path self' = Some p" by (rule ensure_success_caches)
  from ensure_spawns_le[of S self w] r
  show "length (spawned w') \<le> Suc (length (spawned w))" by simp
  from c show "\<forall>w''. ensure_compiled S self' w'' = (Inr p, self', w'')"
    by (simp add: ensure_cached)
qed

theorem build_memoized_witness:
  "ensure_compiled (sample_sys NotStarted {} NotStarted) demo built_world
     = (Inr (mk_path (u ''envs/demo/dist'')),
        demo\<lparr>compiled_path := Some (mk_path (u ''envs/demo/dist''))\<rparr>, built_world)
   \<and> (\<forall>w''. ensure_compiled (sample_sys NotStarted {} NotStarted)
          (demo\<lparr>compiled_path := Some (mk_path (u ''envs/demo/dist''))\<rparr>) w''
        = (Inr (mk_path (u ''envs/demo/dist'')),
           demo\<lparr>compiled_path := Some (mk_path (u ''envs/demo/dist''))\<rparr>, w''))"
proof -
  let ?S = "sample_sys NotStarted {} NotStarted"
  have a: "compiled_path demo = None \<and> path_div (env_path demo) (u ''dist'') \<in> files built_world"
    by (simp add: demo_simps path_simps)
  have d: "path_div (env_path demo) (u ''dist'') = mk_path (u ''envs/demo/dist'')"
    by (simp add: demo_simps path_simps)
  from build_memoized[of demo built_world ?S] a
  have first: "ensure_compiled ?S demo built_world
     = (Inr (mk_path (u ''envs/demo/dist'')),
        demo\<lparr>compiled_path := Some (mk_path (u ''envs/demo/dist''))\<rparr>, built_world)"
    by (simp add: d)
  from build_memoized[of demo built_world ?S "mk_path (u ''envs/demo/dist'')"
      "demo\<lparr>compiled_path := Some (mk_path (u ''envs/demo/dist''))\<rparr>" built_world] first
  show ?thesis by simp
qed

text \<open>
  C4 as stated fails: on one wrapper, with a build that exits with code 1 and leaves no
  \<^verbatim>\<open>dist\<close> directory, the first call of \<^verbatim>\<open>_ensure_compiled\<close> raises \<open>BuildFailed\<close>
  and the second one runs the build again, so that the build has been invoked twice.
\<close>

theorem build_repeated_counterexample:
  "fst (ensure_compiled always_failing demo unbuilt_world)
     = Inl (BuildFailed (u ''Failed to compile TypeScript environment demo: boom''))
   \<and> spawned (snd (snd (ensure_compiled always_failing
         (fst (snd (ensure_compiled always_failing demo unbuilt_world)))
         (snd (snd (ensure_compiled always_failing demo unbuilt_world))))))
     = [[u ''npm'', u ''run'', u ''build''], [u ''npm'', u ''run'', u ''build'']]"
  by (simp add: always_failing_def ensure_compiled_def build_cmd_def demo_simps path_simps Let_def)

text \<open>
  C9, as the code has it.  A call of \<^verbatim>\<open>_ensure_compiled\<close> that raises leaves the
  wrapper as it was, with nothing cached.  The next call on that wrapper runs the build
  again if the \<^verbatim>\<open>dist\<close> directory does not exist at that time; if it does exist, the
  call returns and caches it without building.
\<close>

theorem failed_build_not_cached:
  assumes "ensure_compiled S self w = (Inl e, self', w')"
  shows "self' = self \<and> compiled_path self' = None
    \<and> (\<forall>w''. path_div (env_path self) (u ''dist'') \<notin> files w'' \<longrightarrow>
          spawned (snd (snd (ensure_compiled S self' w''))) = spawned w'' @ [build_cmd S self' w''])
    \<and> (\<forall>w''. path_div (env_path self) (u ''dist'') \<in> files w'' \<longrightarrow>
          ensure_compiled S self' w'' =
            (Inr (path_div (env_path self) (u ''dist'')),
             self'\<lparr>compiled_path := Some (path_div (env_path self) (u ''dist''))\<rparr>, w''))"
proof -
  from assms have k: "self' = self" "compiled_path self = None"
    using ensure_failure_keeps by blast+
  with ensure_builds[of self _ S] ensure_dist_exists[of self _ S] show ?thesis by simp
qed

theorem failed_build_not_cached_witness:
  "compiled_path (fst (snd (ensure_compiled always_failing demo unbuilt_world))) = None
   \<and> spawned (snd (snd (ensure_compiled always_failing demo
        (snd (snd (ensure_compiled always_failing demo unbuilt_world))))))
     = [[u ''npm'', u ''run'', u ''build''], [u ''npm'', u ''run'', u ''build'']]"
proof -
  let ?r = "ensure_compiled always_failing demo unbuilt_world"
  have r: "?r = (Inl (BuildFailed (u ''Failed to compile TypeScript environment demo: boom'')),
      demo, unbuilt_world\<lparr>spawned := [[u ''npm'', u ''run'', u ''build'']]\<rparr>)"
    by (simp add: always_failing_def ensure_compiled_def build_cmd_def demo_simps path_simps Let_def)
  have d: "path_div (env_path demo) (u ''dist'') \<notin> files (snd (snd ?r))"
    unfolding r by (simp add: demo_simps path_simps)
  have b: "build_cmd always_failing demo (snd (snd ?r)) = [u ''npm'', u ''run'', u ''build'']"
    unfolding r by (simp add: always_failing_def build_cmd_def demo_simps path_simps)
  from failed_build_not_cached[OF r] d b show ?thesis
    unfolding r by (simp add: demo_simps)
qed

text \<open>
  C9 as stated fails on its last part: with a build that reports success and creates
  \<^verbatim>\<open>dist\<close> without \<^verbatim>\<open>index.js\<close>, the first call raises \<open>BuildIncomplete\<close>, and the
  second call on the same wrapper returns the directory that the failed build left,
  without building: one build has been run, not two.
\<close>

theorem failed_build_adopted_counterexample:
  "fst (ensure_compiled half_built demo unbuilt_world)
     = Inl (BuildIncomplete
         (u ''Build completed but index.js not found at envs/demo/dist/index.js. Build output: ''))
   \<and> fst (ensure_compiled half_built
         (fst (snd (ensure_compiled half_built demo unbuilt_world)))
         (snd (snd (ensure_compiled half_built demo unbuilt_world))))
     = Inr (mk_path (u ''envs/demo/dist''))
   \<and> spawned (snd (snd (ensure_compiled half_built
         (fst (snd (ensure_compiled half_built demo unbuilt_world)))
         (snd (snd (ensure_compiled half_built demo unbuilt_world))))))
     = [[u ''npm'', u ''run'', u ''build'']]"
  by (simp add: half_built_def ensure_compiled_def build_cmd_def demo_simps path_simps Let_def)

section \<open>Properties of a call\<close>

lemmas parse_simps = json_loads_def scan_once.simps parse_array.simps parse_object.simps
  scanstring.simps(2) skip_ws_def is_ws_def is_digit_def starts_with_def of_option_def
  cons_char_def unescape_def match_number_def digits_value_def hex4_value_def hex_value_def
  low_surrogate_def

lemmas str_simps = strip_def isspace_def find_char_def

text \<open>
  C7.  Whenever \<^verbatim>\<open>_call_ts_method\<close> gets as far as writing its driver file, that
  file does not exist when the call is over, whatever the driver process did and
  however the call ended.
\<close>

theorem driver_file_removed:
  assumes "driver_file S self w = Some p"
  shows "p \<notin> files (snd (snd (call_ts_method S method args kwargs self w)))"
  using assms unfolding driver_file_def call_ts_method_def Let_def
  by (auto split: sum.splits if_splits)

text \<open>
  The three endings that the claim names: a payload returned, a driver that exited with
  code 1, a payload that does not decode.
\<close>

theorem driver_file_removed_witness:
  "fst (call_ts_method (sample_sys NotStarted {} (Completed 0 (u ''{\"ok\":true}'') []))
          (u ''rollout'') [] [] demo built_world)
     = Inr (Plain (JDict [(u ''ok'', JBool True)]))
   \<and> mk_path (u ''/tmp/tmpq1w2e3.mjs'') \<notin> files (snd (snd
        (call_ts_method (sample_sys NotStarted {} (Completed 0 (u ''{\"ok\":true}'') []))
          (u ''rollout'') [] [] demo built_world)))
   \<and> fst (call_ts_method (sample_sys NotStarted {} (Completed 1 [] (u ''{\"error\":\"boom\"}'')))
          (u ''rollout'') [] [] demo built_world)
     = Inl (RemoteMethodFailed (u ''Failed to call rollout on TypeScript environment: boom''))
   \<and> mk_path (u ''/tmp/tmpq1w2e3.mjs'') \<notin> files (snd (snd
        (call_ts_method (sample_sys NotStarted {} (Completed 1 [] (u ''{\"error\":\"boom\"}'')))
          (u ''rollout'') [] [] demo built_world)))
   \<and> fst (call_ts_method (sample_sys NotStarted {} (Completed 0 (u ''{oops'') []))
          (u ''rollout'') [] [] demo built_world)
     = Inl (DecodeError (u ''Failed to parse JSON output from rollout'' @ [10]
               @ u ''Extracted JSON: {oops''))
   \<and> mk_path (u ''/tmp/tmpq1w2e3.mjs'') \<notin> files (snd (snd
        (call_ts_method (sample_sys NotStarted {} (Completed 0 (u ''{oops'') []))
          (u ''rollout'') [] [] demo built_world)))"
proof -
  have d: "driver_file (sample_sys NotStarted {} n) demo built_world
      = Some (mk_path (u ''/tmp/tmpq1w2e3.mjs''))" for n
    by (simp add: driver_file_def ensure_compiled_def demo_simps path_simps Let_def)
  have r1: "fst (call_ts_method (sample_sys NotStarted {} (Completed 0 (u ''{\"ok\":true}'') []))
          (u ''rollout'') [] [] demo built_world)
     = Inr (Plain (JDict [(u ''ok'', JBool True)]))"
    by (simp add: call_ts_method_def ensure_compiled_def demo_simps path_simps Let_def
        on_success_def parse_simps str_simps)
  have r2: "fst (call_ts_method (sample_sys NotStarted {} (Completed 1 [] (u ''{\"error\":\"boom\"}'')))
          (u ''rollout'') [] [] demo built_world)
     = Inl (RemoteMethodFailed (u ''Failed to call rollout on TypeScript environment: boom''))"
    by (simp add: call_ts_method_def ensure_compiled_def demo_simps path_simps Let_def
        on_called_process_error_def py_str_def parse_simps str_simps)
  have r3: "fst (call_ts_method (sample_sys NotStarted {} (Completed 0 (u ''{oops'') []))
          (u ''rollout'') [] [] demo built_world)
     = Inl (DecodeError (u ''Failed to parse JSON output from rollout'' @ [10]
               @ u ''Extracted JSON: {oops''))"
    by (simp add: call_ts_method_def ensure_compiled_def demo_simps path_simps Let_def
        on_success_def stderr_excerpt_def parse_simps str_simps)
  from r1 r2 r3 driver_file_removed[OF d] show ?thesis by blast
qed

subsection \<open>The payload of a driver that exited with code zero\<close>

text \<open>
  The three examples of the specification: text before the payload is dropped, an empty
  or blank \<^verbatim>\<open>stdout\<close> is \<open>NoPayload\<close>, a \<^verbatim>\<open>stdout\<close> with neither a brace nor a
  bracket is \<open>PayloadNotFound\<close>.
\<close>

lemma payload_examples:
  "on_success S (u ''rollout'') (u ''unrelated banner text {\"ok\":true}'') err
     = Inr (Plain (JDict [(u ''ok'', JBool True)]))
   \<and> on_success S method [] []
     = Inl (NoPayload (u ''No output from TypeScript method '' @ method))
   \<and> on_success S method (u ''  '' @ [10]) []
     = Inl (NoPayload (u ''No output from TypeScript method '' @ method))
   \<and> on_success S method (u ''no braces here'') []
     = Inl (PayloadNotFound (u ''No JSON found in output from '' @ method @ [10]
              @ u ''Stdout: no braces here''))"
  by (simp add: on_success_def stderr_excerpt_def parse_simps str_simps u_def)

text \<open>
  C2.  The extraction does not start at the first brace or bracket, whichever comes
  first: it starts at the first brace, and looks for a bracket only when there is no
  brace at all.  The output \<^verbatim>\<open>[{"ok":true}]\<close>, which is a JSON array, is cut to
  \<^verbatim>\<open>{"ok":true}]\<close> and ends as \<open>DecodeError\<close>.
\<close>

theorem payload_array_of_objects:
  "on_success S (u ''rollout'') (u ''[{\"ok\":true}]'') []
     = Inl (DecodeError (u ''Failed to parse JSON output from rollout'' @ [10]
              @ u ''Extracted JSON: {\"ok\":true}]''))
   \<and> json_loads (lib S) (u ''[{\"ok\":true}]'') = Some (JList [JDict [(u ''ok'', JBool True)]])"
  by (simp add: on_success_def stderr_excerpt_def parse_simps str_simps u_def)


subsection \<open>The error of a driver that exited with another code\<close>

text \<open>A text that starts with a brace decodes to a dict or not at all.\<close>

lemma parse_object_step:
  "parse_object L (Suc n) acc s = Ok v r \<Longrightarrow>
     (\<exists>d. v = JDict d) \<or> (\<exists>acc' s'. parse_object L n acc' s' = Ok v r)"
  apply (subst (asm) parse_object.simps)
  apply (simp only: nat.simps if_False diff_Suc_1)
  apply (cases s)
   apply simp
  apply (simp split: if_splits option.splits)
  subgoal for q cs kr
    apply (cases "skip_ws (snd kr)")
     apply simp
    apply (simp split: if_splits)
    subgoal for c r0
      apply (cases "scan_once L n (skip_ws r0)")
        apply simp_all
      subgoal for v' r'
        apply (cases "skip_ws r'")
         apply simp
        apply (simp split: if_splits)
        by blast+
      done
    done
  done

lemma parse_object_dict:
  "parse_object L n acc s = Ok v r \<Longrightarrow> \<exists>d. v = JDict d"
proof (induction n arbitrary: acc s)
  case 0
  then show ?case by (simp add: parse_object.simps)
next
  case (Suc n)
  from parse_object_step[OF Suc.prems] Suc.IH show ?case by blast
qed

lemma loads_brace_dict:
  assumes "starts_with s (u ''{'')" and "json_loads L s = Some v"
  shows "\<exists>d. v = JDict d"
proof -
  from assms(1) obtain cs where s: "s = 123 # cs"
    by (cases s) (auto simp: starts_with_def u_def)
  have ws: "skip_ws s = s" by (simp add: s skip_ws_def is_ws_def)
  from assms(2) obtain r where ok: "scan_once L (2 * length s + 1) s = Ok v r"
    by (auto simp: json_loads_def ws split: parsed.splits if_splits)
  show ?thesis
  proof (cases "skip_ws cs")
    case Nil
    with ok show ?thesis by (subst (asm) scan_once.simps) (simp add: s)
  next
    case (Cons d r0)
    with ok have "(v = JDict [] \<and> d = 125) \<or> parse_object L (2 * length s) [] (d # r0) = Ok v r"
      by (subst (asm) scan_once.simps) (simp add: s split: if_splits)
    with parse_object_dict show ?thesis by blast
  qed
qed


lemma scan_skip:
  "\<forall>l\<in>set ls. \<not> starts_with (strip l) (u ''{'') \<Longrightarrow>
   scan_error_lines L pre eo (ls @ rest) = scan_error_lines L pre eo rest"
  by (induction ls) simp_all

lemma scan_none:
  "\<forall>l\<in>set ls. \<not> starts_with (strip l) (u ''{'') \<Longrightarrow>
   scan_error_lines L pre eo ls = RemoteMethodFailed (pre @ eo)"
  using scan_skip[of ls L pre eo "[]"] by simp

lemma scan_hit:
  assumes "starts_with (strip line) (u ''{'')"
  shows "scan_error_lines L pre eo (line # rest) =
     (case json_loads L (strip line) of
        Some (JDict d) \<Rightarrow>
          RemoteMethodFailed (pre @ py_str L (case map_of d (u ''error'') of
                          Some v \<Rightarrow> v | None \<Rightarrow> JStr (u ''Unknown error'')))
      | _ \<Rightarrow> RemoteMethodFailed (pre @ eo))"
proof (cases "json_loads L (strip line)")
  case None
  with assms show ?thesis by simp
next
  case (Some v)
  with assms loads_brace_dict obtain d where "v = JDict d" by blast
  with Some assms show ?thesis by simp
qed

lemma error_output_eq:
  "on_called_process_error L method out err =
     scan_error_lines L (u ''Failed to call '' @ method @ u '' on TypeScript environment: '')
       (if err \<noteq> [] then err else out)
       (rev (split_on 10 (strip (if err \<noteq> [] then err else out))))"
proof -
  have "(if err \<noteq> [] then err else if out \<noteq> [] then out else []) = (if err \<noteq> [] then err else out)"
    by simp
  then show ?thesis unfolding on_called_process_error_def Let_def by simp
qed

lemma failure_decoded:
  assumes "split_on 10 (strip (if err \<noteq> [] then err else out)) = before @ [line] @ after"
    and "starts_with (strip line) (u ''{'')"
    and "\<forall>l\<in>set after. \<not> starts_with (strip l) (u ''{'')"
  shows "on_called_process_error L method out err =
      (case json_loads L (strip line) of
         Some (JDict d) \<Rightarrow>
           RemoteMethodFailed
             (u ''Failed to call '' @ method @ u '' on TypeScript environment: ''
              @ py_str L (case map_of d (u ''error'') of
                            Some v \<Rightarrow> v
                          | None \<Rightarrow> JStr (u ''Unknown error'')))
       | _ \<Rightarrow>
           RemoteMethodFailed
             (u ''Failed to call '' @ method @ u '' on TypeScript environment: ''
              @ (if err \<noteq> [] then err else out)))"
proof -
  from assms(1)
  have r: "rev (split_on 10 (strip (if err \<noteq> [] then err else out))) = rev after @ (line # rev before)"
    by simp
  from assms(3) have "\<forall>l\<in>set (rev after). \<not> starts_with (strip l) (u ''{'')" by simp
  then have sk: "scan_error_lines L pre eo (rev after @ (line # rev before)) =
        scan_error_lines L pre eo (line # rev before)" for pre eo
    by (rule scan_skip)
  show ?thesis
    by (simp only: error_output_eq r sk scan_hit[OF assms(2)] append_assoc)
qed

lemma failure_raw:
  assumes "\<forall>l\<in>set (split_on 10 (strip (if err \<noteq> [] then err else out))).
          \<not> starts_with (strip l) (u ''{'')"
  shows "on_called_process_error L method out err =
        RemoteMethodFailed
          (u ''Failed to call '' @ method @ u '' on TypeScript environment: ''
           @ (if err \<noteq> [] then err else out))"
proof -
  from assms
  have "\<forall>l\<in>set (rev (split_on 10 (strip (if err \<noteq> [] then err else out)))).
      \<not> starts_with (strip l) (u ''{'')"
    by simp
  then show ?thesis
    unfolding error_output_eq by (simp only: scan_none append_assoc)
qed

text \<open>
  C3, as the code has it.  The text that is scanned and reported is the captured
  \<^verbatim>\<open>stderr\<close>, or the captured \<^verbatim>\<open>stdout\<close> when \<^verbatim>\<open>stderr\<close> is empty.  Its last
  line that starts with a brace, once stripped, is decoded, and the
  \<open>RemoteMethodFailed\<close> raised carries the string form of its \<^verbatim>\<open>error\<close> field
  (\<^verbatim>\<open>Unknown error\<close> without such a field); if that line does not decode, or if no
  line starts with a brace, the \<open>RemoteMethodFailed\<close> carries the whole text,
  unstripped.
\<close>

theorem failure_mapping:
  "(split_on 10 (strip (if err \<noteq> [] then err else out)) = before @ [line] @ after
      \<and> starts_with (strip line) (u ''{'')
      \<and> (\<forall>l\<in>set after. \<not> starts_with (strip l) (u ''{'')) \<longrightarrow>
    on_called_process_error L method out err =
      (case json_loads L (strip line) of
         Some (JDict d) \<Rightarrow>
           RemoteMethodFailed
             (u ''Failed to call '' @ method @ u '' on TypeScript environment: ''
              @ py_str L (case map_of d (u ''error'') of
                            Some v \<Rightarrow> v
                          | None \<Rightarrow> JStr (u ''Unknown error'')))
       | _ \<Rightarrow>
           RemoteMethodFailed
             (u ''Failed to call '' @ method @ u '' on TypeScript environment: ''
              @ (if err \<noteq> [] then err else out))))
   \<and> ((\<forall>l\<in>set (split_on 10 (strip (if err \<noteq> [] then err else out))).
          \<not> starts_with (strip l) (u ''{'')) \<longrightarrow>
      on_called_process_error L method out err =
        RemoteMethodFailed
          (u ''Failed to call '' @ method @ u '' on TypeScript environment: ''
           @ (if err \<noteq> [] then err else out)))"
  using failure_decoded[of err out before line after] failure_raw[of err out]
  by blast

text \<open>
  The example of the specification, and an error text without any structured line.
\<close>

theorem failure_mapping_witness:
  "on_called_process_error sample_lib (u ''rollout'') []
       (u ''warmup line'' @ [10] @ u ''{\"error\":\"boom\",\"name\":\"Err\"}'' @ [10])
     = RemoteMethodFailed (u ''Failed to call rollout on TypeScript environment: boom'')
   \<and> on_called_process_error sample_lib (u ''rollout'') [] (u ''Segmentation fault'')
     = RemoteMethodFailed
         (u ''Failed to call rollout on TypeScript environment: Segmentation fault'')"
proof -
  let ?err = "u ''warmup line'' @ [10] @ u ''{\"error\":\"boom\",\"name\":\"Err\"}'' @ [10]"
  let ?line = "u ''{\"error\":\"boom\",\"name\":\"Err\"}''"
  have a: "split_on 10 (strip (if ?err \<noteq> [] then ?err else [])) = [u ''warmup line''] @ [?line] @ []
      \<and> starts_with (strip ?line) (u ''{'')
      \<and> (\<forall>l\<in>set []. \<not> starts_with (strip l) (u ''{''))"
    by (simp add: str_simps starts_with_def u_def)
  have l: "json_loads sample_lib (strip ?line)
      = Some (JDict [(u ''error'', JStr (u ''boom'')), (u ''name'', JStr (u ''Err''))])"
    by (simp add: parse_simps str_simps u_def)
  have b: "\<forall>l\<in>set (split_on 10 (strip (if u ''Segmentation fault'' \<noteq> [] then u ''Segmentation fault'' else []))).
      \<not> starts_with (strip l) (u ''{'')"
    by (simp add: str_simps starts_with_def u_def)
  from failure_mapping[of ?err "[]" "[u ''warmup line'']" ?line "[]" sample_lib "u ''rollout''"] a l
  have one: "on_called_process_error sample_lib (u ''rollout'') [] ?err
     = RemoteMethodFailed (u ''Failed to call rollout on TypeScript environment: boom'')"
    by (simp add: py_str_def u_def)
  from failure_mapping[of "u ''Segmentation fault''" "[]" _ _ _ sample_lib "u ''rollout''"] b
  have two: "on_called_process_error sample_lib (u ''rollout'') [] (u ''Segmentation fault'')
     = RemoteMethodFailed
         (u ''Failed to call rollout on TypeScript environment: Segmentation fault'')"
    by (simp add: u_def)
  from one two show ?thesis by simp
qed

text \<open>
  C3 as stated fails when the error channel is empty: the driver exited with code 1,
  wrote nothing to \<^verbatim>\<open>stderr\<close> and \<^verbatim>\<open>{"error":"from stdout"}\<close> to \<^verbatim>\<open>stdout\<close>; the
  exception carries the message decoded from \<^verbatim>\<open>stdout\<close>, not the (empty) text of the
  error channel.
\<close>

theorem failure_mapping_stdout_counterexample:
  "on_called_process_error sample_lib (u ''rollout'') (u ''{\"error\":\"from stdout\"}'') []
     = RemoteMethodFailed (u ''Failed to call rollout on TypeScript environment: from stdout'')
   \<and> on_called_process_error sample_lib (u ''rollout'') (u ''{\"error\":\"from stdout\"}'') []
     \<noteq> RemoteMethodFailed (u ''Failed to call rollout on TypeScript environment: '' @ [])"
  by (simp add: on_called_process_error_def parse_simps str_simps py_str_def u_def)


subsection \<open>\<^verbatim>\<open>rollout\<close>\<close>

text \<open>
  When \<^verbatim>\<open>_call_ts_method\<close> returns a list, \<^verbatim>\<open>rollout\<close> returns the tuple of its
  elements, in their order.
\<close>

lemma rollout_returns_tuple:
  assumes "map_of (extra_kwargs c) (u ''api_key'') = None"
    and "map_of (extra_kwargs c) (u ''base_url'') = None"
    and "call_ts_method S (u ''rollout'')
           [model c, prompt c, completion c, answer c,
            py_or (lib S) (state c) (JDict []), task c,
            py_or (lib S) (info c) (JDict []), example_id c,
            py_or (lib S) (sampling_args c) (JDict [])]
           ([(u ''api_key'',
              py_or (lib S) (client_api_key c) (dict_get (extra_kwargs c) (u ''api_key''))),
             (u ''base_url'',
              if truthy (lib S)
                   (py_or (lib S) (client_base_url c) (dict_get (extra_kwargs c) (u ''base_url'')))
              then JStr (py_str (lib S)
                   (py_or (lib S) (client_base_url c) (dict_get (extra_kwargs c) (u ''base_url''))))
              else JNull)] @ extra_kwargs c)
           self w = (Inr (Plain (JList xs)), self', w')"
  shows "rollout S c self w = (Inr xs, self', w')"
  using assms by (simp add: rollout_def Let_def tuple_of_def)

text \<open>
  C8.  The driver exits with code zero and writes \<^verbatim>\<open>[{"a":1},{"b":2},{"c":3}]\<close>, a
  JSON array of length 3.  \<^verbatim>\<open>rollout\<close> does not return a tuple of length 3: the
  payload is cut at its first brace and the call ends as \<open>DecodeError\<close>.  An array
  without any brace, such as \<^verbatim>\<open>[1, 2, 3]\<close>, does come back as a tuple.
\<close>

theorem rollout_array_of_objects:
  "fst (rollout (sample_sys NotStarted {} (Completed 0 (u ''[{\"a\":1},{\"b\":2},{\"c\":3}]'') []))
          demo_call demo built_world)
     = Inl (DecodeError (u ''Failed to parse JSON output from rollout'' @ [10]
              @ u ''Extracted JSON: {\"a\":1},{\"b\":2},{\"c\":3}]''))
   \<and> json_loads sample_lib (u ''[{\"a\":1},{\"b\":2},{\"c\":3}]'')
     = Some (JList [JDict [(u ''a'', JInt 1)], JDict [(u ''b'', JInt 2)], JDict [(u ''c'', JInt 3)]])
   \<and> fst (rollout (sample_sys NotStarted {} (Completed 0 (u ''[1, 2, 3]'') []))
          demo_call demo built_world)
     = Inr [JInt 1, JInt 2, JInt 3]"
  by (simp add: rollout_def call_ts_method_def ensure_compiled_def demo_simps demo_call_def
      path_simps Let_def py_or_def dict_get_def tuple_of_def on_success_def stderr_excerpt_def
      parse_simps str_simps)



section \<open>Properties of the host's loader\<close>

lemma attempted_iff:
  "fst (snd (load_environment H eid env_dir_path args w st)) =
     (\<exists>msg. native_attempt H eid args = Inl (ImportError msg))"
  by (auto simp: load_environment_def Let_def split: sum.splits exn.splits option.splits)

lemma attempt_load_raises:
  assumes "import_module H (module_name_of eid) = Inr m" "has_load_environment m"
    "introspect m = None" "load_result m args = Inl ex"
  shows "native_attempt H eid args = Inl ex"
  using assms by (simp add: native_attempt_def)

lemma attempt_import_raises:
  assumes "import_module H (module_name_of eid) = Inl ex"
  shows "native_attempt H eid args = Inl ex"
  using assms by (simp add: native_attempt_def)

text \<open>
  C10, as the code has it.  \<^verbatim>\<open>load_environment\<close> calls \<^verbatim>\<open>_load_ts_environment\<close>
  exactly when an \<^verbatim>\<open>ImportError\<close> leaves the body of its \<^verbatim>\<open>try\<close>: when the import
  of the native module raises one, and also when the module is imported and its own
  \<^verbatim>\<open>load_environment\<close> raises one.  When that call raises another \<^verbatim>\<open>Exception\<close>,
  the host raises \<open>LoadFailed\<close> (a \<^verbatim>\<open>RuntimeError\<close>) with its message and does not
  try the bridge.
\<close>

theorem bridge_fallback:
  "(fst (snd (load_environment H eid env_dir_path args w st)) =
      (\<exists>msg. native_attempt H eid args = Inl (ImportError msg)))
   \<and> (import_module H (module_name_of eid) = Inl (ImportError msg) \<longrightarrow>
        fst (snd (load_environment H eid env_dir_path args w st)))
   \<and> (import_module H (module_name_of eid) = Inr m \<and> has_load_environment m
        \<and> introspect m = None \<and> load_result m args = Inl (ImportError msg) \<longrightarrow>
        fst (snd (load_environment H eid env_dir_path args w st)))
   \<and> (import_module H (module_name_of eid) = Inr m \<and> has_load_environment m
        \<and> introspect m = None \<and> load_result m args = Inl (OtherException msg) \<longrightarrow>
        load_environment H eid env_dir_path args w st =
          (Inl (LoadFailed (u ''Failed to load environment '' @ [39] @ eid @ [39] @ u '': ''
                  @ msg)),
           False, st))"
proof (intro conjI impI)
  show "fst (snd (load_environment H eid env_dir_path args w st)) =
      (\<exists>msg. native_attempt H eid args = Inl (ImportError msg))"
    by (rule attempted_iff)
next
  assume "import_module H (module_name_of eid) = Inl (ImportError msg)"
  then have "native_attempt H eid args = Inl (ImportError msg)" by (rule attempt_import_raises)
  then show "fst (snd (load_environment H eid env_dir_path args w st))"
    unfolding attempted_iff by blast
next
  assume "import_module H (module_name_of eid) = Inr m \<and> has_load_environment m
        \<and> introspect m = None \<and> load_result m args = Inl (ImportError msg)"
  then have "native_attempt H eid args = Inl (ImportError msg)"
    using attempt_load_raises by blast
  then show "fst (snd (load_environment H eid env_dir_path args w st))"
    unfolding attempted_iff by blast
next
  assume "import_module H (module_name_of eid) = Inr m \<and> has_load_environment m
        \<and> introspect m = None \<and> load_result m args = Inl (OtherException msg)"
  then have "native_attempt H eid args = Inl (OtherException msg)"
    using attempt_load_raises by blast
  then show "load_environment H eid env_dir_path args w st =
          (Inl (LoadFailed (u ''Failed to load environment '' @ [39] @ eid @ [39] @ u '': ''
                  @ msg)),
           False, st)"
    by (simp add: load_environment_def)
qed

text \<open>
  A native import that raises \<^verbatim>\<open>ImportError\<close>, and a native \<^verbatim>\<open>load_environment\<close>
  that raises another exception.
\<close>

lemmas host_simps = sample_host_def sample_interp_def module_raising_def

theorem bridge_fallback_witness:
  "fst (snd (load_environment (sample_host (Inl (ImportError (u ''No module named my_env''))))
        (u ''my-env'') None [] unbuilt_world sample_interp))
   \<and> load_environment (sample_host (Inr (module_raising (OtherException (u ''bad config'')))))
        (u ''my-env'') None [] unbuilt_world sample_interp
     = (Inl (LoadFailed (u ''Failed to load environment '' @ [39] @ u ''my-env'' @ [39]
              @ u '': bad config'')), False, sample_interp)"
proof -
  let ?H1 = "sample_host (Inl (ImportError (u ''No module named my_env'')))"
  let ?m = "module_raising (OtherException (u ''bad config''))"
  let ?H2 = "sample_host (Inr ?m)"
  have a: "import_module ?H1 (module_name_of (u ''my-env'')) = Inl (ImportError (u ''No module named my_env''))"
    by (simp add: host_simps)
  have b: "import_module ?H2 (module_name_of (u ''my-env'')) = Inr ?m \<and> has_load_environment ?m
        \<and> introspect ?m = None \<and> load_result ?m [] = Inl (OtherException (u ''bad config''))"
    by (simp add: host_simps)
  from bridge_fallback[of ?H1 "u ''my-env''" None "[]" unbuilt_world sample_interp
      "u ''No module named my_env''"] a
  have one: "fst (snd (load_environment ?H1 (u ''my-env'') None [] unbuilt_world sample_interp))"
    by blast
  from bridge_fallback[of ?H2 "u ''my-env''" None "[]" unbuilt_world sample_interp
      "u ''bad config''" ?m] b
  have two: "load_environment ?H2 (u ''my-env'') None [] unbuilt_world sample_interp
     = (Inl (LoadFailed (u ''Failed to load environment '' @ [39] @ u ''my-env'' @ [39]
              @ u '': bad config'')), False, sample_interp)"
    by (simp add: u_def)
  from one two show ?thesis by simp
qed

text \<open>
  C10 as stated fails: the native module is imported, its \<^verbatim>\<open>load_environment\<close> raises
  \<^verbatim>\<open>ImportError\<close>; the bridge is tried, and since it is not found the host raises the
  \<^verbatim>\<open>ValueError\<close> \<open>CouldNotImport\<close>, not a \<^verbatim>\<open>RuntimeError\<close>.
\<close>

theorem bridge_fallback_counterexample:
  "load_environment (sample_host (Inr (module_raising (ImportError (u ''No module named torch'')))))
        (u ''my-env'') None [] unbuilt_world sample_interp
     = (Inl (CouldNotImport (u ''Could not import '' @ [39] @ u ''my-env'' @ [39]
              @ u '' environment. Ensure the package for the '' @ [39] @ u ''my-env'' @ [39]
              @ u '' environment is installed.'')), True, sample_interp)"
  by (simp add: load_environment_def native_attempt_def host_load_ts_environment_def
      ensure_ts_bridge_on_path_def host_simps Let_def)


end
